theory Spec2Isabelle
  imports Complex_Main
begin

section \<open>Configuration and data model\<close>

text \<open>
  The engine exists in two variants of one React component: \<^verbatim>\<open>src/App.jsx\<close> (periodic
  strategy switching, leaderboard of 10) and the ORION TX variant (continuous exploration,
  leaderboard of 50). Their simulation hooks and their steering function are the same code up
  to formatting; where they differ (the evaluation of a course of action) both are modelled.

  JavaScript numbers are modelled as \<^typ>\<open>real\<close>: the arithmetic of the engine is taken
  exactly, without rounding. The one place where the IEEE value \<^verbatim>\<open>Infinity\<close> is produced
  by the code is modelled with an explicit number type further down.
\<close>

definition GRID_SIZE :: real where "GRID_SIZE = 400"
definition NUM_THEATERS :: nat where "NUM_THEATERS = 4"
definition ENGAGEMENT_DISTANCE :: real where "ENGAGEMENT_DISTANCE = 35"
definition HIT_DAMAGE :: real where "HIT_DAMAGE = 2"
definition BASE_SUCCESS_PROBABILITY :: real where "BASE_SUCCESS_PROBABILITY = 50"

datatype team = Blue | Red

text \<open>
  An agent object. The source's fields \<^verbatim>\<open>id\<close>, \<^verbatim>\<open>x\<close> and \<^verbatim>\<open>y\<close> are called
  \<open>agentId\<close>, \<open>posX\<close> and \<open>posY\<close> here. A blue agent has no \<^verbatim>\<open>health\<close> and a red
  agent no \<^verbatim>\<open>active\<close>, \<^verbatim>\<open>vx\<close>, \<^verbatim>\<open>vy\<close>; the engine reads \<^verbatim>\<open>health\<close> only behind
  \<^verbatim>\<open>team === 'red' &&\<close> and \<^verbatim>\<open>active\<close> only behind \<^verbatim>\<open>team === 'blue' &&\<close>, so the
  value these fields carry on the other team is never looked at.
\<close>

record agent =
  agentId :: string
  posX :: real
  posY :: real
  vx :: real
  vy :: real
  team :: team
  active :: bool
  health :: real

record theater =
  theaterId :: nat
  theaterName :: string
  agents :: "agent list"
  priority :: real

datatype roe = Defensive | Standard | Aggressive

record policy =
  forceLevel :: real
  roe :: roe
  commanderIntent :: string
  riskTolerance :: real

record logistics =
  supplyRate :: real
  maintenanceLevel :: real
  commsReliability :: real
  transportCapacity :: real

datatype mode = MultiTheater | StandardMode

section \<open>Randomness\<close>

text \<open>
  \<^verbatim>\<open>Math.random()\<close> is the only effect of the engine. The random source is a fixed
  sequence of numbers and the state threaded through the code is the position of the next
  draw: every call returns the number at the position and advances it by one.
\<close>

type_synonym rand = "nat \<Rightarrow> real"

definition Math_random :: "rand \<Rightarrow> nat \<Rightarrow> real \<times> nat" where
  "Math_random rnd k = (rnd k, Suc k)"

text \<open>\<^verbatim>\<open>xs.map(f)\<close> for a callback that draws random numbers: elements are visited in
  index order and the position of the next draw is handed from one call to the next.\<close>

fun mapRand :: "('a \<Rightarrow> nat \<Rightarrow> 'b \<times> nat) \<Rightarrow> 'a list \<Rightarrow> nat \<Rightarrow> 'b list \<times> nat" where
  "mapRand f [] k = ([], k)"
| "mapRand f (a # as) k =
     (case f a k of (b, k') \<Rightarrow>
        (case mapRand f as k' of (bs, k'') \<Rightarrow> (b # bs, k'')))"

section \<open>Library functions of the host language\<close>

text \<open>\<^verbatim>\<open>Math.hypot(dx, dy)\<close>; \<^verbatim>\<open>src/App.jsx\<close> writes the same value as
  \<^verbatim>\<open>Math.sqrt(Math.pow(dx, 2) + Math.pow(dy, 2))\<close>.\<close>

definition hypot :: "real \<Rightarrow> real \<Rightarrow> real" where
  "hypot dx dy = sqrt (dx\<^sup>2 + dy\<^sup>2)"

text \<open>\<^verbatim>\<open>Math.atan2(dy, dx)\<close>: the angle of the point \<open>(dx, dy)\<close> in \<open>(-\<pi>, \<pi>]\<close>, and 0 at
  the origin.\<close>

definition atan2 :: "real \<Rightarrow> real \<Rightarrow> real" where
  "atan2 dy dx =
     (if 0 < dx then arctan (dy / dx)
      else if dx < 0 then (if 0 \<le> dy then arctan (dy / dx) + pi else arctan (dy / dx) - pi)
      else if 0 < dy then pi / 2
      else if dy < 0 then - (pi / 2)
      else 0)"

text \<open>\<^verbatim>\<open>agent.id.match(/\d+/)?.[0] || 0\<close> followed by \<^verbatim>\<open>parseInt\<close>: the regular
  expression matches the leftmost maximal run of decimal digits of the id; without a digit
  the match is \<^verbatim>\<open>null\<close> and the number is 0.\<close>

definition isDigit :: "char \<Rightarrow> bool" where
  "isDigit c = (c \<in> set ''0123456789'')"

definition digitVal :: "char \<Rightarrow> nat" where
  "digitVal c = of_char c - 48"

definition matchDigits :: "string \<Rightarrow> string option" where
  "matchDigits s =
     (let run = takeWhile isDigit (dropWhile (\<lambda>c. \<not> isDigit c) s)
      in if run = [] then None else Some run)"

definition parseInt :: "string \<Rightarrow> nat" where
  "parseInt ds = foldl (\<lambda>n c. 10 * n + digitVal c) 0 ds"

definition agentNumOf :: "string \<Rightarrow> nat" where
  "agentNumOf s = (case matchDigits s of None \<Rightarrow> 0 | Some ds \<Rightarrow> parseInt ds)"

section \<open>Steering model\<close>

record strategy =
  name :: string
  approach :: string
  speed :: real

definition strategies :: "strategy list" where
  "strategies =
     [\<lparr>name = ''Direct Assault'', approach = ''direct'', speed = 2.5\<rparr>,
      \<lparr>name = ''Flanking Maneuver'', approach = ''flank'', speed = 2\<rparr>,
      \<lparr>name = ''Pincer Movement'', approach = ''pincer'', speed = 2\<rparr>,
      \<lparr>name = ''Dispersed Engagement'', approach = ''dispersed'', speed = 1.8\<rparr>,
      \<lparr>name = ''Concentrated Strike'', approach = ''concentrated'', speed = 3\<rparr>,
      \<lparr>name = ''Hit and Run'', approach = ''hitrun'', speed = 3.5\<rparr>]"

text \<open>The \<^verbatim>\<open>switch\<close> of \<^verbatim>\<open>getStrategyBehavior\<close>: the steering angle and the speed for a
  present target. \<open>timeElapsed\<close> is the value of the fourth parameter after its default
  has been applied. Only \<^verbatim>\<open>'dispersed'\<close> draws a random number.\<close>

definition strategyAngleSpeed ::
  "rand \<Rightarrow> agent \<Rightarrow> agent \<Rightarrow> string \<Rightarrow> real \<Rightarrow> nat \<Rightarrow> (real \<times> real) \<times> nat" where
  "strategyAngleSpeed rnd agent nearest strategyApproach timeElapsed k =
     (let dx = posX nearest - posX agent;
          dy = posY nearest - posY agent;
          baseAngle = atan2 dy dx;
          dist = hypot dx dy;
          agentNum = agentNumOf (agentId agent);
          strategyConfig =
            (case find (\<lambda>s. approach s = strategyApproach) strategies of
               Some s \<Rightarrow> s | None \<Rightarrow> strategies ! 0);
          speedMod = speed strategyConfig
      in if strategyApproach = ''direct'' then ((baseAngle, speedMod), k)
         else if strategyApproach = ''flank'' then
           ((baseAngle + (if agentNum mod 2 = 0 then pi / 3 else - pi / 3), speedMod), k)
         else if strategyApproach = ''pincer'' then
           ((baseAngle + (if agentNum mod 2 = 0 then pi / 2.5 else - pi / 2.5), speedMod), k)
         else if strategyApproach = ''dispersed'' then
           (case Math_random rnd k of (r, k') \<Rightarrow>
              ((baseAngle + (r - 0.5) * pi / 2, speedMod), k'))
         else if strategyApproach = ''concentrated'' then
           ((baseAngle + sin (timeElapsed + real agentNum) * 0.3, speedMod), k)
         else if strategyApproach = ''hitrun'' then
           (if dist < 80 then ((baseAngle + pi, speedMod * 1.5), k)
            else ((baseAngle, speedMod), k))
         else ((baseAngle, speedMod), k))"

text \<open>\<^verbatim>\<open>getStrategyBehavior(agent, nearest, strategyApproach, timeElapsed = 0)\<close>. The target
  may be \<^verbatim>\<open>null\<close> and the fourth argument may be left out, in which case the default 0
  applies. The result is the pair \<open>(vx, vy)\<close>.\<close>

definition getStrategyBehavior ::
  "rand \<Rightarrow> agent \<Rightarrow> agent option \<Rightarrow> string \<Rightarrow> real option \<Rightarrow> nat \<Rightarrow> (real \<times> real) \<times> nat" where
  "getStrategyBehavior rnd agent nearest strategyApproach timeArg k =
     (case nearest of
        None \<Rightarrow> ((0, 0), k)
      | Some target \<Rightarrow>
          (let timeElapsed = (case timeArg of None \<Rightarrow> 0 | Some t \<Rightarrow> t)
           in case strategyAngleSpeed rnd agent target strategyApproach timeElapsed k of
                ((angle, speedMod), k') \<Rightarrow> ((cos angle * speedMod, sin angle * speedMod), k')))"

section \<open>Tick engine\<close>

text \<open>\<^verbatim>\<open>findNearest\<close>: the running minimum starts at \<^verbatim>\<open>Infinity\<close> (\<open>None\<close> here), so
  the first target always replaces the initial choice, and a later target replaces the
  choice only when it is strictly nearer.\<close>

fun findNearestLoop :: "agent \<Rightarrow> agent list \<Rightarrow> agent \<Rightarrow> real option \<Rightarrow> agent" where
  "findNearestLoop agent [] nearest minDistance = nearest"
| "findNearestLoop agent (target # rest) nearest minDistance =
     (let distance = hypot (posX target - posX agent) (posY target - posY agent)
      in if (case minDistance of None \<Rightarrow> True | Some m \<Rightarrow> distance < m)
         then findNearestLoop agent rest target (Some distance)
         else findNearestLoop agent rest nearest minDistance)"

definition findNearest :: "agent \<Rightarrow> agent list \<Rightarrow> agent option" where
  "findNearest agent targets =
     (if targets = [] then None
      else Some (findNearestLoop agent targets (targets ! 0) None))"

definition clampGrid :: "real \<Rightarrow> real" where
  "clampGrid v = max 0 (min GRID_SIZE v)"

definition isLivingRed :: "agent \<Rightarrow> bool" where
  "isLivingRed a = (team a = Red \<and> health a > 0)"

definition isActiveBlue :: "agent \<Rightarrow> bool" where
  "isActiveBlue a = (team a = Blue \<and> active a)"

definition aggressionModOf :: "roe \<Rightarrow> real" where
  "aggressionModOf r = (if r = Defensive then 0.5 else if r = Aggressive then 1.5 else 1)"

subsection \<open>Multi-theater mode\<close>

text \<open>The callback of the first \<^verbatim>\<open>theater.agents.map\<close> of \<^verbatim>\<open>updateMultiTheater\<close>: the
  movement of one agent. The steering function is called with three arguments.\<close>

definition moveAgentMulti ::
  "rand \<Rightarrow> string \<Rightarrow> policy \<Rightarrow> logistics \<Rightarrow> agent list \<Rightarrow> agent \<Rightarrow> nat \<Rightarrow> agent \<times> nat" where
  "moveAgentMulti rnd currentStrategy pol lg roster agent k =
     (if team agent = Blue \<and> active agent then
        (let redTargets = filter isLivingRed roster
         in case findNearest agent redTargets of
              None \<Rightarrow> (agent, k)
            | Some nearest \<Rightarrow>
                (case getStrategyBehavior rnd agent (Some nearest) currentStrategy None k of
                   ((bvx, bvy), k') \<Rightarrow>
                     (let aggressionMod = aggressionModOf (roe pol);
                          newVx = bvx * aggressionMod;
                          newVy = bvy * aggressionMod;
                          transportMod = transportCapacity lg / 100;
                          newX = clampGrid (posX agent + newVx * transportMod);
                          newY = clampGrid (posY agent + newVy * transportMod)
                      in (agent\<lparr>vx := newVx, vy := newVy, posX := newX, posY := newY\<rparr>, k'))))
      else (agent, k))"

text \<open>The \<^verbatim>\<open>for\<close> loop of the damage pass of \<^verbatim>\<open>updateMultiTheater\<close>: one draw for every
  blue agent within engagement distance.\<close>

fun damageLoopMulti ::
  "rand \<Rightarrow> policy \<Rightarrow> logistics \<Rightarrow> agent \<Rightarrow> agent list \<Rightarrow> real \<Rightarrow> nat \<Rightarrow> real \<times> nat" where
  "damageLoopMulti rnd pol lg agent [] totalDamage k = (totalDamage, k)"
| "damageLoopMulti rnd pol lg agent (blueAgent # rest) totalDamage k =
     (let distance = hypot (posX blueAgent - posX agent) (posY blueAgent - posY agent)
      in if distance < ENGAGEMENT_DISTANCE then
           (let hitChance = commsReliability lg / 100
            in case Math_random rnd k of (r, k') \<Rightarrow>
                 if r < hitChance then
                   (let damage = HIT_DAMAGE;
                        damage = (if roe pol = Defensive then damage * 0.5 else damage);
                        damage = (if roe pol = Aggressive then damage * 1.5 else damage)
                    in damageLoopMulti rnd pol lg agent rest (totalDamage + damage) k')
                 else damageLoopMulti rnd pol lg agent rest totalDamage k')
         else damageLoopMulti rnd pol lg agent rest totalDamage k)"

definition damageAgentMulti ::
  "rand \<Rightarrow> policy \<Rightarrow> logistics \<Rightarrow> agent list \<Rightarrow> agent \<Rightarrow> nat \<Rightarrow> agent \<times> nat" where
  "damageAgentMulti rnd pol lg updatedAgents agent k =
     (if team agent = Red \<and> health agent > 0 then
        (let blueAgents = filter isActiveBlue updatedAgents
         in case damageLoopMulti rnd pol lg agent blueAgents 0 k of
              (totalDamage, k') \<Rightarrow>
                (if totalDamage > 0
                 then (agent\<lparr>health := max 0 (health agent - totalDamage)\<rparr>, k')
                 else (agent, k')))
      else (agent, k))"

text \<open>The two passes over one theater, and the callback of \<^verbatim>\<open>prevTheaters.map\<close>: the
  movement pass maps over \<^verbatim>\<open>theater.agents\<close> and reads \<^verbatim>\<open>theater.agents\<close>, the damage
  pass maps over \<^verbatim>\<open>updatedAgents\<close> and reads \<^verbatim>\<open>updatedAgents\<close>.\<close>

definition movementPassMulti ::
  "rand \<Rightarrow> string \<Rightarrow> policy \<Rightarrow> logistics \<Rightarrow> agent list \<Rightarrow> nat \<Rightarrow> agent list \<times> nat" where
  "movementPassMulti rnd currentStrategy pol lg roster k =
     mapRand (moveAgentMulti rnd currentStrategy pol lg roster) roster k"

definition damagePassMulti ::
  "rand \<Rightarrow> policy \<Rightarrow> logistics \<Rightarrow> agent list \<Rightarrow> nat \<Rightarrow> agent list \<times> nat" where
  "damagePassMulti rnd pol lg updatedAgents k =
     mapRand (damageAgentMulti rnd pol lg updatedAgents) updatedAgents k"

definition updateTheater ::
  "rand \<Rightarrow> string \<Rightarrow> policy \<Rightarrow> logistics \<Rightarrow> theater \<Rightarrow> nat \<Rightarrow> theater \<times> nat" where
  "updateTheater rnd currentStrategy pol lg th k =
     (case movementPassMulti rnd currentStrategy pol lg (agents th) k of
        (updatedAgents, k') \<Rightarrow>
          (case damagePassMulti rnd pol lg updatedAgents k' of
             (finalAgents, k'') \<Rightarrow> (th\<lparr>agents := finalAgents\<rparr>, k'')))"

definition updateMultiTheater ::
  "rand \<Rightarrow> string \<Rightarrow> policy \<Rightarrow> logistics \<Rightarrow> theater list \<Rightarrow> nat \<Rightarrow> theater list \<times> nat" where
  "updateMultiTheater rnd currentStrategy pol lg prevTheaters k =
     mapRand (updateTheater rnd currentStrategy pol lg) prevTheaters k"

subsection \<open>Standard mode\<close>

text \<open>\<^verbatim>\<open>updateStandardMode\<close> is a closure of the same hook, so the policy and the
  logistics are in its scope; its body mentions neither.\<close>

definition moveAgentStandard ::
  "rand \<Rightarrow> string \<Rightarrow> agent list \<Rightarrow> agent \<Rightarrow> nat \<Rightarrow> agent \<times> nat" where
  "moveAgentStandard rnd currentStrategy prevAgents agent k =
     (if team agent = Blue \<and> active agent then
        (let redTargets = filter isLivingRed prevAgents
         in case findNearest agent redTargets of
              None \<Rightarrow> (agent, k)
            | Some nearest \<Rightarrow>
                (case getStrategyBehavior rnd agent (Some nearest) currentStrategy None k of
                   ((bvx, bvy), k') \<Rightarrow>
                     (let newX = clampGrid (posX agent + bvx);
                          newY = clampGrid (posY agent + bvy)
                      in (agent\<lparr>vx := bvx, vy := bvy, posX := newX, posY := newY\<rparr>, k'))))
      else (agent, k))"

fun damageLoopStandard :: "agent \<Rightarrow> agent list \<Rightarrow> real \<Rightarrow> real" where
  "damageLoopStandard agent [] totalDamage = totalDamage"
| "damageLoopStandard agent (blueAgent # rest) totalDamage =
     (let distance = hypot (posX blueAgent - posX agent) (posY blueAgent - posY agent)
      in if distance < ENGAGEMENT_DISTANCE
         then damageLoopStandard agent rest (totalDamage + HIT_DAMAGE)
         else damageLoopStandard agent rest totalDamage)"

definition damageAgentStandard :: "agent list \<Rightarrow> agent \<Rightarrow> agent" where
  "damageAgentStandard updatedAgents agent =
     (if team agent = Red \<and> health agent > 0 then
        (let blueAgents = filter isActiveBlue updatedAgents;
             totalDamage = damageLoopStandard agent blueAgents 0
         in if totalDamage > 0
            then agent\<lparr>health := max 0 (health agent - totalDamage)\<rparr>
            else agent)
      else agent)"

definition movementPassStandard :: "rand \<Rightarrow> string \<Rightarrow> agent list \<Rightarrow> nat \<Rightarrow> agent list \<times> nat" where
  "movementPassStandard rnd currentStrategy prevAgents k =
     mapRand (moveAgentStandard rnd currentStrategy prevAgents) prevAgents k"

definition damagePassStandard :: "agent list \<Rightarrow> agent list" where
  "damagePassStandard updatedAgents = map (damageAgentStandard updatedAgents) updatedAgents"

definition updateStandardMode ::
  "rand \<Rightarrow> string \<Rightarrow> policy \<Rightarrow> logistics \<Rightarrow> agent list \<Rightarrow> nat \<Rightarrow> agent list \<times> nat" where
  "updateStandardMode rnd currentStrategy pol lg prevAgents k =
     (case movementPassStandard rnd currentStrategy prevAgents k of
        (updatedAgents, k') \<Rightarrow> (damagePassStandard updatedAgents, k'))"

section \<open>World initialisation\<close>

text \<open>Decimal rendering of a number inside a template string.\<close>

fun showNat :: "nat \<Rightarrow> string" where
  "showNat n =
     (if n < 10 then [char_of (48 + n)]
      else showNat (n div 10) @ [char_of (48 + n mod 10)])"

declare showNat.simps [simp del]

text \<open>\<^verbatim>\<open>initStandardMode\<close>: 20 blue agents, then 6 red ones; the object literal draws the
  random number of \<^verbatim>\<open>x\<close> before that of \<^verbatim>\<open>y\<close>.\<close>

definition newBlueStandard :: "rand \<Rightarrow> nat \<Rightarrow> nat \<Rightarrow> agent \<times> nat" where
  "newBlueStandard rnd i k =
     (case Math_random rnd k of (r1, k1) \<Rightarrow>
      case Math_random rnd k1 of (r2, k2) \<Rightarrow>
        (\<lparr>agentId = ''b'' @ showNat i,
          posX = r1 * GRID_SIZE * 0.3, posY = r2 * GRID_SIZE,
          vx = 0, vy = 0, team = Blue, active = True, health = 0\<rparr>, k2))"

definition newRedStandard :: "rand \<Rightarrow> nat \<Rightarrow> nat \<Rightarrow> agent \<times> nat" where
  "newRedStandard rnd i k =
     (case Math_random rnd k of (r1, k1) \<Rightarrow>
      case Math_random rnd k1 of (r2, k2) \<Rightarrow>
        (\<lparr>agentId = ''r'' @ showNat i,
          posX = GRID_SIZE * 0.7 + r1 * GRID_SIZE * 0.2, posY = r2 * GRID_SIZE,
          vx = 0, vy = 0, team = Red, active = False, health = 100\<rparr>, k2))"

definition initStandardMode :: "rand \<Rightarrow> nat \<Rightarrow> agent list \<times> nat" where
  "initStandardMode rnd k =
     (case mapRand (newBlueStandard rnd) [0..<20] k of (blues, k') \<Rightarrow>
      case mapRand (newRedStandard rnd) [0..<6] k' of (reds, k'') \<Rightarrow>
        (blues @ reds, k''))"

text \<open>\<^verbatim>\<open>initMultiTheater\<close>: for each of the theaters 8 to 12 blue and 2 to 4 red agents.\<close>

definition newBlueMulti :: "rand \<Rightarrow> nat \<Rightarrow> nat \<Rightarrow> nat \<Rightarrow> agent \<times> nat" where
  "newBlueMulti rnd t i k =
     (case Math_random rnd k of (r1, k1) \<Rightarrow>
      case Math_random rnd k1 of (r2, k2) \<Rightarrow>
        (\<lparr>agentId = ''t'' @ showNat t @ ''-b'' @ showNat i,
          posX = r1 * GRID_SIZE * 0.25, posY = r2 * GRID_SIZE,
          vx = 0, vy = 0, team = Blue, active = True, health = 0\<rparr>, k2))"

definition newRedMulti :: "rand \<Rightarrow> nat \<Rightarrow> nat \<Rightarrow> nat \<Rightarrow> agent \<times> nat" where
  "newRedMulti rnd t i k =
     (case Math_random rnd k of (r1, k1) \<Rightarrow>
      case Math_random rnd k1 of (r2, k2) \<Rightarrow>
        (\<lparr>agentId = ''t'' @ showNat t @ ''-r'' @ showNat i,
          posX = GRID_SIZE * 0.7 + r1 * GRID_SIZE * 0.25, posY = r2 * GRID_SIZE,
          vx = 0, vy = 0, team = Red, active = False, health = 100\<rparr>, k2))"

definition newTheater :: "rand \<Rightarrow> nat \<Rightarrow> nat \<Rightarrow> theater \<times> nat" where
  "newTheater rnd t k =
     (case Math_random rnd k of (ra, k1) \<Rightarrow>
      case Math_random rnd k1 of (rt, k2) \<Rightarrow>
        (let numAgents = 8 + nat \<lfloor>ra * 5\<rfloor>;
             numTargets = 2 + nat \<lfloor>rt * 3\<rfloor>
         in case mapRand (newBlueMulti rnd t) [0..<numAgents] k2 of (blues, k3) \<Rightarrow>
            case mapRand (newRedMulti rnd t) [0..<numTargets] k3 of (reds, k4) \<Rightarrow>
            case Math_random rnd k4 of (rp, k5) \<Rightarrow>
              (\<lparr>theaterId = t,
                theaterName =
                  [''Northern Front'', ''Eastern Sector'', ''Southern Theater'',
                   ''Western Zone''] ! t,
                agents = blues @ reds,
                priority = rp\<rparr>, k5)))"

definition initMultiTheater :: "rand \<Rightarrow> nat \<Rightarrow> theater list \<times> nat" where
  "initMultiTheater rnd k = mapRand (newTheater rnd) [0..<NUM_THEATERS] k"

subsection \<open>Runs of the control loop\<close>

text \<open>What one tick reads from the controls: the active strategy, the policy and the
  logistics. A run is a sequence of ticks on the world.\<close>

record tickInput =
  tiStrategy :: string
  tiPolicy :: policy
  tiLogistics :: logistics

fun runStandard :: "rand \<Rightarrow> tickInput list \<Rightarrow> agent list \<times> nat \<Rightarrow> agent list \<times> nat" where
  "runStandard rnd [] w = w"
| "runStandard rnd (i # is) w =
     runStandard rnd is
       (updateStandardMode rnd (tiStrategy i) (tiPolicy i) (tiLogistics i) (fst w) (snd w))"

fun runMultiTheater ::
  "rand \<Rightarrow> tickInput list \<Rightarrow> theater list \<times> nat \<Rightarrow> theater list \<times> nat" where
  "runMultiTheater rnd [] w = w"
| "runMultiTheater rnd (i # is) w =
     runMultiTheater rnd is
       (updateMultiTheater rnd (tiStrategy i) (tiPolicy i) (tiLogistics i) (fst w) (snd w))"

definition inArena :: "agent \<Rightarrow> bool" where
  "inArena a = (0 \<le> posX a \<and> posX a \<le> GRID_SIZE \<and> 0 \<le> posY a \<and> posY a \<le> GRID_SIZE)"

section \<open>Metrics engine\<close>

text \<open>The value of a JavaScript division and of \<^verbatim>\<open>Math.floor\<close>, with the values that are
  not real numbers written out. A zero divisor is the positive zero: the divisor of the
  engine is a sum of two slider values, which are not negative.\<close>

datatype jsnum = Num real | PosInfinity | NegInfinity | NaN

definition js_div :: "real \<Rightarrow> real \<Rightarrow> jsnum" where
  "js_div a b =
     (if b \<noteq> 0 then Num (a / b)
      else if 0 < a then PosInfinity
      else if a < 0 then NegInfinity
      else NaN)"

definition Math_floor :: "jsnum \<Rightarrow> jsnum" where
  "Math_floor v = (case v of Num r \<Rightarrow> Num (of_int \<lfloor>r\<rfloor>) | other \<Rightarrow> other)"

definition isNonNegInteger :: "jsnum \<Rightarrow> bool" where
  "isNonNegInteger v = (case v of Num r \<Rightarrow> 0 \<le> r \<and> r = of_int \<lfloor>r\<rfloor> | other \<Rightarrow> False)"

record missionMetrics =
  successProbability :: real
  predictedCasualties :: int
  timeToObjective :: jsnum
  resourceConsumption :: int
  coverageGaps :: "string list"

definition allAgentsOf :: "mode \<Rightarrow> theater list \<Rightarrow> agent list \<Rightarrow> agent list" where
  "allAgentsOf m theaters stdAgents =
     (if m = MultiTheater then concat (map agents theaters) else stdAgents)"

definition updateMissionMetrics ::
  "mode \<Rightarrow> theater list \<Rightarrow> agent list \<Rightarrow> policy \<Rightarrow> logistics \<Rightarrow> missionMetrics" where
  "updateMissionMetrics m theaters stdAgents pol lg =
     (let allAgents = allAgentsOf m theaters stdAgents;
          activeBlue = length (filter isActiveBlue allAgents);
          activeRed = length (filter isLivingRed allAgents);
          forceRatio = real activeBlue / real (max activeRed 1);
          policyMod = forceLevel pol / 100;
          logisticsMod = (supplyRate lg + commsReliability lg) / 200;
          baseProb = BASE_SUCCESS_PROBABILITY + (forceRatio - 1) * 30;
          baseProb = baseProb * (policyMod * logisticsMod);
          baseProb = (if roe pol = Defensive then baseProb * 0.8 else baseProb);
          baseProb = (if roe pol = Aggressive then baseProb * 1.2 else baseProb)
      in \<lparr>successProbability = min 100 (max 0 baseProb),
          predictedCasualties = \<lfloor>real activeBlue * (1 - policyMod) * 0.3\<rfloor>,
          timeToObjective = Math_floor (js_div 100 (logisticsMod * 2)),
          resourceConsumption = \<lfloor>100 - supplyRate lg\<rfloor>,
          coverageGaps = (if forceLevel pol < 80 then [''Sector B'', ''Eastern Flank''] else [])\<rparr>)"

text \<open>The success probability in the words of the specification, from the two counts and
  the four inputs.\<close>

definition spec_successProbability ::
  "nat \<Rightarrow> nat \<Rightarrow> real \<Rightarrow> roe \<Rightarrow> real \<Rightarrow> real \<Rightarrow> real" where
  "spec_successProbability activeBlueCount activeRedCount fl r sr cr =
     (let forceRatio = real activeBlueCount / real (max 1 activeRedCount);
          baseProbability = 50 + (forceRatio - 1) * 30;
          scaled = baseProbability * ((fl / 100) * ((sr + cr) / 200));
          scaled = scaled * (if r = Defensive then 0.8 else if r = Aggressive then 1.2 else 1)
      in if scaled < 0 then 0 else if 100 < scaled then 100 else scaled)"

section \<open>COA explorer\<close>

text \<open>A leaderboard entry. The periodic-switch variant stores a strategy label next to the
  name and the time as text with one decimal; the continuous variant has no strategy field
  (empty here) and stores the time as a number. The time is kept as the number in both.\<close>

record coa =
  coaId :: nat
  coaName :: string
  coaStrategy :: string
  score :: real
  coaTime :: real

record evalState =
  exploredCOAs :: nat
  bestCOAs :: "coa list"

text \<open>\<^verbatim>\<open>.sort((a, b) => b.score - a.score)\<close>: the sort of the language is stable, as
  insertion from the right is.\<close>

definition sortByScoreDesc :: "coa list \<Rightarrow> coa list" where
  "sortByScoreDesc cs = sort_key (\<lambda>c. - score c) cs"

definition resetEvaluation :: evalState where
  "resetEvaluation = \<lparr>exploredCOAs = 0, bestCOAs = []\<rparr>"

text \<open>The arguments of one call of \<^verbatim>\<open>evaluateCurrentStrategy\<close>, with the two values the
  callback takes from its environment: the clock (\<^verbatim>\<open>Date.now()\<close>) and the explored count
  captured by the closure.\<close>

record evalCall =
  ecNow :: nat
  ecCaptured :: nat
  ecStrategy :: string
  ecStrategies :: "strategy list"
  ecMode :: mode
  ecTheaters :: "theater list"
  ecAgents :: "agent list"
  ecPolicy :: policy
  ecLogistics :: logistics
  ecTimeElapsed :: real

fun distanceLoop :: "agent list \<Rightarrow> agent list \<Rightarrow> real \<Rightarrow> nat \<Rightarrow> real \<times> nat" where
  "distanceLoop [] redTargets totalDistance validAgents = (totalDistance, validAgents)"
| "distanceLoop (agent # rest) redTargets totalDistance validAgents =
     (case findNearest agent redTargets of
        Some nearest \<Rightarrow>
          distanceLoop rest redTargets
            (totalDistance + hypot (posX nearest - posX agent) (posY nearest - posY agent))
            (validAgents + 1)
      | None \<Rightarrow> distanceLoop rest redTargets totalDistance validAgents)"

text \<open>\<^verbatim>\<open>evaluateCurrentStrategy\<close> of \<^verbatim>\<open>src/App.jsx\<close> (periodic switch, top 10).\<close>

definition evaluatePeriodic :: "rand \<Rightarrow> evalCall \<Rightarrow> evalState \<times> nat \<Rightarrow> evalState \<times> nat" where
  "evaluatePeriodic rnd c sk =
     (let st = fst sk; k = snd sk;
          allAgents = allAgentsOf (ecMode c) (ecTheaters c) (ecAgents c);
          blueAgents = filter isActiveBlue allAgents;
          redTargets = filter isLivingRed allAgents
      in if blueAgents = [] then (st, k)
         else case distanceLoop blueAgents redTargets 0 0 of
           (totalDistance, validAgents) \<Rightarrow>
             if validAgents = 0 then (st, k)
             else
               (let avgDistToTarget = totalDistance / real validAgents;
                    proximityScore = max 0 (100 - avgDistToTarget / 5);
                    policyBonus = forceLevel (ecPolicy c) / 100 * 20;
                    logisticsBonus = commsReliability (ecLogistics c) / 100 * 15
                in case Math_random rnd k of (r, k') \<Rightarrow>
                  (let totalScore =
                         real_of_int \<lfloor>(proximityScore * 0.6 + policyBonus + logisticsBonus)
                                        * (r * 0.3 + 0.85)\<rfloor>;
                       strategyName =
                         (case find (\<lambda>s. approach s = ecStrategy c) (ecStrategies c) of
                            Some s \<Rightarrow> name s | None \<Rightarrow> ''Unknown'');
                       newCOA = \<lparr>coaId = ecNow c,
                                 coaName = ''COA-'' @ showNat (ecCaptured c),
                                 coaStrategy = strategyName,
                                 score = min 100 (max 0 totalScore),
                                 coaTime = ecTimeElapsed c\<rparr>;
                       updated = take 10 (sortByScoreDesc (bestCOAs st @ [newCOA]))
                   in (\<lparr>exploredCOAs = exploredCOAs st + 1, bestCOAs = updated\<rparr>, k'))))"

text \<open>\<^verbatim>\<open>evaluateCurrentStrategy\<close> of the ORION TX variant (continuous exploration,
  top 50).\<close>

definition evaluateContinuous :: "rand \<Rightarrow> evalCall \<Rightarrow> evalState \<times> nat \<Rightarrow> evalState \<times> nat" where
  "evaluateContinuous rnd c sk =
     (let st = fst sk; k = snd sk
      in case Math_random rnd k of (r, k') \<Rightarrow>
        (let sc = (r * 0.5 + (forceLevel (ecPolicy c) / 100) * 0.3
                     + (supplyRate (ecLogistics c) / 100) * 0.2) * 100;
             result = \<lparr>coaId = ecCaptured c + 1,
                       coaName = ecStrategy c,
                       coaStrategy = [],
                       score = sc,
                       coaTime = ecTimeElapsed c\<rparr>;
             updated = sortByScoreDesc (bestCOAs st @ [result])
         in (\<lparr>exploredCOAs = exploredCOAs st + 1, bestCOAs = take 50 updated\<rparr>, k')))"

definition sortedDesc :: "coa list \<Rightarrow> bool" where
  "sortedDesc cs = sorted_wrt (\<lambda>a b. score b \<le> score a) cs"

section \<open>Properties stated about the engine\<close>

text \<open>The health of an agent across a damage pass or a tick: for a red agent it does not
  grow, and it does not become negative.\<close>

definition healthOk :: "agent \<Rightarrow> agent \<Rightarrow> bool" where
  "healthOk a a' =
     (team a = Red \<longrightarrow> health a' \<le> health a \<and> (0 \<le> health a \<longrightarrow> 0 \<le> health a'))"

definition redHealthy :: "agent \<Rightarrow> bool" where
  "redHealthy a = (team a = Red \<longrightarrow> 0 \<le> health a \<and> health a \<le> 100)"

definition theaterHealthy :: "theater \<Rightarrow> bool" where
  "theaterHealthy th = list_all redHealthy (agents th)"

definition theaterInArena :: "theater \<Rightarrow> bool" where
  "theaterInArena th = list_all inArena (agents th)"

text \<open>\<^verbatim>\<open>Math.random()\<close> returns a number in \<open>[0, 1)\<close>.\<close>

definition unitRange :: "rand \<Rightarrow> bool" where
  "unitRange rnd = (\<forall>k. 0 \<le> rnd k \<and> rnd k < 1)"

definition leaderboardOk :: "nat \<Rightarrow> evalState \<times> nat \<Rightarrow> bool" where
  "leaderboardOk cap sk =
     (sortedDesc (bestCOAs (fst sk)) \<and> length (bestCOAs (fst sk)) \<le> cap)"

text \<open>The number of active blue agents of a roster that are within engagement distance of
  an agent.\<close>

definition engagingBlue :: "agent list \<Rightarrow> agent \<Rightarrow> nat" where
  "engagingBlue roster a =
     length (filter (\<lambda>b. isActiveBlue b
                \<and> hypot (posX b - posX a) (posY b - posY a) < ENGAGEMENT_DISTANCE) roster)"

section \<open>Example worlds\<close>

definition exBlue :: agent where
  "exBlue = \<lparr>agentId = ''b0'', posX = 0, posY = 0, vx = 0, vy = 0,
              team = Blue, active = True, health = 0\<rparr>"

definition exRed :: agent where
  "exRed = \<lparr>agentId = ''r0'', posX = 100, posY = 0, vx = 0, vy = 0,
             team = Red, active = False, health = 100\<rparr>"

definition exRedNear :: agent where
  "exRedNear = \<lparr>agentId = ''r0'', posX = 10, posY = 0, vx = 0, vy = 0,
                 team = Red, active = False, health = 100\<rparr>"

definition exRedEdge :: agent where
  "exRedEdge = \<lparr>agentId = ''r0'', posX = 36, posY = 0, vx = 0, vy = 0,
                 team = Red, active = False, health = 100\<rparr>"

definition exFlanker :: agent where
  "exFlanker = \<lparr>agentId = ''t2-b3'', posX = 0, posY = 0, vx = 0, vy = 0,
                 team = Blue, active = True, health = 0\<rparr>"

definition exTheater :: "agent list \<Rightarrow> theater" where
  "exTheater as = \<lparr>theaterId = 0, theaterName = ''Northern Front'', agents = as, priority = 0\<rparr>"

definition exPolicy :: "roe \<Rightarrow> policy" where
  "exPolicy r = \<lparr>forceLevel = 100, roe = r, commanderIntent = ''balanced'', riskTolerance = 50\<rparr>"

definition exLogistics :: "real \<Rightarrow> real \<Rightarrow> real \<Rightarrow> logistics" where
  "exLogistics sr cr tc =
     \<lparr>supplyRate = sr, maintenanceLevel = 100, commsReliability = cr, transportCapacity = tc\<rparr>"

section \<open>Mapping with a random source\<close>

lemma mapRand_length: "length (fst (mapRand f xs k)) = length xs"
proof (induction xs arbitrary: k)
  case Nil
  then show ?case by simp
next
  case (Cons a as)
  obtain b k' where fa: "f a k = (b, k')" by (cases "f a k")
  obtain bs k'' where rec: "mapRand f as k' = (bs, k'')" by (cases "mapRand f as k'")
  have "length bs = length as" using Cons.IH [of k'] rec by simp
  then show ?case using fa rec by simp
qed

lemma mapRand_all2:
  "(\<And>a k. a \<in> set xs \<Longrightarrow> P a (fst (f a k))) \<Longrightarrow> list_all2 P xs (fst (mapRand f xs k))"
proof (induction xs arbitrary: k)
  case Nil
  then show ?case by simp
next
  case (Cons a as)
  obtain b k' where fa: "f a k = (b, k')" by (cases "f a k")
  obtain bs k'' where rec: "mapRand f as k' = (bs, k'')" by (cases "mapRand f as k'")
  have "P a b" using Cons.prems [of a k] fa by simp
  moreover have "list_all2 P as bs" using Cons.IH [of k'] Cons.prems rec by simp
  ultimately show ?case using fa rec by simp
qed

lemma mapRand_all:
  "(\<And>a k. a \<in> set xs \<Longrightarrow> Q (fst (f a k))) \<Longrightarrow> list_all Q (fst (mapRand f xs k))"
proof (induction xs arbitrary: k)
  case Nil
  then show ?case by simp
next
  case (Cons a as)
  obtain b k' where fa: "f a k = (b, k')" by (cases "f a k")
  obtain bs k'' where rec: "mapRand f as k' = (bs, k'')" by (cases "mapRand f as k'")
  have "Q b" using Cons.prems [of a k] fa by simp
  moreover have "list_all Q bs" using Cons.IH [of k'] Cons.prems rec by simp
  ultimately show ?case using fa rec by simp
qed

lemma list_all2_pres:
  "list_all2 (\<lambda>a a'. Q a \<longrightarrow> Q a') xs ys \<Longrightarrow> list_all Q xs \<Longrightarrow> list_all Q ys"
  by (induction xs ys rule: list_all2_induct) auto

lemma list_all2_trans_rel:
  "list_all2 P xs ys \<Longrightarrow> list_all2 Q ys zs \<Longrightarrow> (\<And>a b c. P a b \<Longrightarrow> Q b c \<Longrightarrow> R a c)
     \<Longrightarrow> list_all2 R xs zs"
  by (rule list_all2_trans [where ?P1.0 = P and ?P2.0 = Q]) auto

section \<open>Facts about single agents\<close>

lemma clampGrid_bounds: "0 \<le> clampGrid v \<and> clampGrid v \<le> GRID_SIZE"
  by (simp add: clampGrid_def GRID_SIZE_def)

lemma moveAgentStandard_keeps:
  "team (fst (moveAgentStandard rnd s prev a k)) = team a
   \<and> health (fst (moveAgentStandard rnd s prev a k)) = health a
   \<and> active (fst (moveAgentStandard rnd s prev a k)) = active a"
  by (simp add: moveAgentStandard_def Let_def split: option.splits prod.splits)

lemma moveAgentMulti_keeps:
  "team (fst (moveAgentMulti rnd s pol lg prev a k)) = team a
   \<and> health (fst (moveAgentMulti rnd s pol lg prev a k)) = health a
   \<and> active (fst (moveAgentMulti rnd s pol lg prev a k)) = active a"
  by (simp add: moveAgentMulti_def Let_def split: option.splits prod.splits)

lemma moveAgentStandard_inArena:
  "inArena a \<Longrightarrow> inArena (fst (moveAgentStandard rnd s prev a k))"
  by (simp add: moveAgentStandard_def Let_def inArena_def clampGrid_bounds
      split: option.splits prod.splits)

lemma moveAgentMulti_inArena:
  "inArena a \<Longrightarrow> inArena (fst (moveAgentMulti rnd s pol lg prev a k))"
  by (simp add: moveAgentMulti_def Let_def inArena_def clampGrid_bounds
      split: option.splits prod.splits)

lemma damageAgentStandard_pos:
  "posX (damageAgentStandard us a) = posX a \<and> posY (damageAgentStandard us a) = posY a
   \<and> team (damageAgentStandard us a) = team a"
  by (simp add: damageAgentStandard_def Let_def)

lemma damageAgentMulti_pos:
  "posX (fst (damageAgentMulti rnd pol lg us a k)) = posX a
   \<and> posY (fst (damageAgentMulti rnd pol lg us a k)) = posY a
   \<and> team (fst (damageAgentMulti rnd pol lg us a k)) = team a"
  by (simp add: damageAgentMulti_def Let_def split: prod.splits)

lemma damageAgentStandard_health:
  "health (damageAgentStandard us a) \<le> health a
   \<and> (0 \<le> health a \<longrightarrow> 0 \<le> health (damageAgentStandard us a))"
  by (simp add: damageAgentStandard_def Let_def)

lemma damageAgentMulti_health:
  "health (fst (damageAgentMulti rnd pol lg us a k)) \<le> health a
   \<and> (0 \<le> health a \<longrightarrow> 0 \<le> health (fst (damageAgentMulti rnd pol lg us a k)))"
  by (simp add: damageAgentMulti_def Let_def split: prod.splits)

section \<open>Evaluation on the example worlds\<close>

lemma findNearest_single: "findNearest a [t] = Some t"
  by (simp add: findNearest_def)

lemma hypot_axis: "hypot d 0 = \<bar>d\<bar>"
  by (simp add: hypot_def)

lemma atan2_axis: "0 < d \<Longrightarrow> atan2 0 d = 0"
  by (simp add: atan2_def)

lemma steer_direct:
  "getStrategyBehavior rnd a (Some t) ''direct'' None k =
     ((cos (atan2 (posY t - posY a) (posX t - posX a)) * 2.5,
       sin (atan2 (posY t - posY a) (posX t - posX a)) * 2.5), k)"
  by (simp add: getStrategyBehavior_def strategyAngleSpeed_def strategies_def Let_def)

lemma steer_concentrated:
  "getStrategyBehavior rnd a (Some t) ''concentrated'' None k =
     ((cos (atan2 (posY t - posY a) (posX t - posX a)
              + sin (real (agentNumOf (agentId a))) * 0.3) * 3,
       sin (atan2 (posY t - posY a) (posX t - posX a)
              + sin (real (agentNumOf (agentId a))) * 0.3) * 3), k)"
  by (simp add: getStrategyBehavior_def strategyAngleSpeed_def strategies_def Let_def)

lemma agentNum_flanker: "agentNumOf (agentId exFlanker) = 2"
  by (simp add: exFlanker_def agentNumOf_def matchDigits_def isDigit_def parseInt_def
      digitVal_def)

lemma agentNum_exBlue: "agentNumOf (agentId exBlue) = 0"
  by (simp add: exBlue_def agentNumOf_def matchDigits_def isDigit_def parseInt_def
      digitVal_def)

section \<open>Movement: standard mode against multi-theater mode\<close>

lemma move_std_ex:
  "moveAgentStandard rnd ''direct'' [exBlue, exRed] exBlue k
     = (exBlue\<lparr>vx := 2.5, vy := 0, posX := 2.5, posY := 0\<rparr>, k)"
  by (simp add: moveAgentStandard_def isLivingRed_def findNearest_single steer_direct
      exBlue_def exRed_def atan2_axis clampGrid_def GRID_SIZE_def)

lemma move_std_ex_red:
  "moveAgentStandard rnd ''direct'' [exBlue, exRed] exRed k = (exRed, k)"
  by (simp add: moveAgentStandard_def exRed_def)

lemma move_multi_ex:
  "moveAgentMulti rnd ''direct'' (exPolicy Defensive) (exLogistics 100 100 50)
       [exBlue, exRed] exBlue k
     = (exBlue\<lparr>vx := 1.25, vy := 0, posX := 0.625, posY := 0\<rparr>, k)"
  by (simp add: moveAgentMulti_def isLivingRed_def findNearest_single steer_direct
      exBlue_def exRed_def atan2_axis clampGrid_def GRID_SIZE_def aggressionModOf_def
      exPolicy_def exLogistics_def)

lemma move_multi_ex_red:
  "moveAgentMulti rnd ''direct'' pol lg [exBlue, exRed] exRed k = (exRed, k)"
  by (simp add: moveAgentMulti_def exRed_def)

lemma multi_displacement:
  assumes "isActiveBlue a" and "findNearest a (filter isLivingRed roster) = Some t"
    and "getStrategyBehavior rnd a (Some t) s None k = ((bvx, bvy), k')"
  shows "posX (fst (moveAgentMulti rnd s pol lg roster a k))
           = clampGrid (posX a + bvx * aggressionModOf (roe pol) * (transportCapacity lg / 100))
       \<and> posY (fst (moveAgentMulti rnd s pol lg roster a k))
           = clampGrid (posY a + bvy * aggressionModOf (roe pol) * (transportCapacity lg / 100))"
  using assms by (simp add: moveAgentMulti_def isActiveBlue_def Let_def)

lemma standard_displacement:
  assumes "isActiveBlue a" and "findNearest a (filter isLivingRed roster) = Some t"
    and "getStrategyBehavior rnd a (Some t) s None k = ((bvx, bvy), k')"
  shows "posX (fst (moveAgentStandard rnd s roster a k)) = clampGrid (posX a + bvx)
       \<and> posY (fst (moveAgentStandard rnd s roster a k)) = clampGrid (posY a + bvy)"
  using assms by (simp add: moveAgentStandard_def isActiveBlue_def Let_def)

text \<open>
  C1. The claim: in the movement pass of both modes the displacement of an active blue
  agent with a living target is the steering velocity times the aggression modifier of the
  rules of engagement times \<open>transportCapacity / 100\<close>. At the input below (rules of
  engagement defensive, transport capacity 50, one blue agent at the origin, one red agent
  at \<open>(100, 0)\<close>, strategy \<open>direct\<close>) the claim asks for the position \<open>(0.625, 0)\<close>. The
  multi-theater update moves the agent there; the standard update moves it to \<open>(2.5, 0)\<close>,
  the bare steering velocity.
\<close>

theorem standard_mode_ignores_roe_and_transport:
  "fst (updateStandardMode rnd ''direct'' (exPolicy Defensive) (exLogistics 100 100 50)
          [exBlue, exRed] k)
     = [exBlue\<lparr>vx := 2.5, vy := 0, posX := 2.5, posY := 0\<rparr>, exRed]
   \<and> agents (fst (updateTheater rnd ''direct'' (exPolicy Defensive) (exLogistics 100 100 50)
          (exTheater [exBlue, exRed]) k))
     = [exBlue\<lparr>vx := 1.25, vy := 0, posX := 0.625, posY := 0\<rparr>, exRed]"
proof -
  have mv: "movementPassStandard rnd ''direct'' [exBlue, exRed] k
        = ([exBlue\<lparr>vx := 2.5, vy := 0, posX := 2.5, posY := 0\<rparr>, exRed], k)"
    by (simp add: movementPassStandard_def move_std_ex move_std_ex_red)
  have dm: "damagePassStandard [exBlue\<lparr>vx := 5 / 2, vy := 0, posX := 5 / 2, posY := 0\<rparr>, exRed]
        = [exBlue\<lparr>vx := 5 / 2, vy := 0, posX := 5 / 2, posY := 0\<rparr>, exRed]"
    by (simp add: damagePassStandard_def damageAgentStandard_def isActiveBlue_def
        exBlue_def exRed_def hypot_axis ENGAGEMENT_DISTANCE_def)
  have mv2: "movementPassMulti rnd ''direct'' (exPolicy Defensive) (exLogistics 100 100 50)
          [exBlue, exRed] k
        = ([exBlue\<lparr>vx := 1.25, vy := 0, posX := 0.625, posY := 0\<rparr>, exRed], k)"
    by (simp add: movementPassMulti_def move_multi_ex move_multi_ex_red)
  have dm2: "damagePassMulti rnd (exPolicy Defensive) (exLogistics 100 100 50)
          [exBlue\<lparr>vx := 5 / 4, vy := 0, posX := 5 / 8, posY := 0\<rparr>, exRed] k
        = ([exBlue\<lparr>vx := 5 / 4, vy := 0, posX := 5 / 8, posY := 0\<rparr>, exRed], k)"
    by (simp add: damagePassMulti_def damageAgentMulti_def isActiveBlue_def
        exBlue_def exRed_def hypot_axis ENGAGEMENT_DISTANCE_def)
  show ?thesis
    by (simp add: updateStandardMode_def mv dm updateTheater_def exTheater_def mv2 dm2)
qed

section \<open>Success probability\<close>

lemma clamp_eq:
  "min (100::real) (max 0 b) = (if b < 0 then 0 else if 100 < b then 100 else b)"
  by (auto simp: min_def max_def)

lemma successProbability_code:
  "successProbability (updateMissionMetrics m theaters stdAgents pol lg) =
     spec_successProbability
       (length (filter isActiveBlue (allAgentsOf m theaters stdAgents)))
       (length (filter isLivingRed (allAgentsOf m theaters stdAgents)))
       (forceLevel pol) (roe pol) (supplyRate lg) (commsReliability lg)"
  by (cases "roe pol")
     (simp_all add: updateMissionMetrics_def spec_successProbability_def Let_def
        BASE_SUCCESS_PROBABILITY_def max.commute clamp_eq)

lemma successProbability_example_standard:
  "successProbability (updateMissionMetrics StandardMode []
      (replicate 10 exBlue @ replicate 5 exRed) (exPolicy Standard) (exLogistics 100 100 100))
     = 80"
  by (simp add: successProbability_code allAgentsOf_def isActiveBlue_def isLivingRed_def
      exBlue_def exRed_def exPolicy_def exLogistics_def spec_successProbability_def)

lemma successProbability_example_multi:
  "successProbability (updateMissionMetrics MultiTheater
      [exTheater (replicate 6 exBlue @ replicate 2 exRed),
       exTheater (replicate 4 exBlue @ replicate 3 exRed)] []
      (exPolicy Standard) (exLogistics 100 100 100))
     = 80"
  by (simp add: successProbability_code allAgentsOf_def isActiveBlue_def isLivingRed_def
      exBlue_def exRed_def exPolicy_def exLogistics_def spec_successProbability_def
      exTheater_def)

text \<open>
  C3. For every world, policy and logistics the success probability computed by
  \<^verbatim>\<open>updateMissionMetrics\<close> is the formula of the specification: \<open>50 + (forceRatio - 1) * 30\<close>
  with \<open>forceRatio = activeBlue / max 1 activeRed\<close>, scaled by
  \<open>(forceLevel / 100) * ((supplyRate + commsReliability) / 200)\<close>, then by 0.8 (defensive) or
  1.2 (aggressive), then clamped to \<open>[0, 100]\<close>. With force level 100, standard rules of
  engagement, supply rate 100, comms reliability 100, 10 active blue and 5 living red agents
  the value is 80, in standard mode and flattened over the theaters in multi-theater mode.
\<close>

theorem successProbability_formula:
  "successProbability (updateMissionMetrics m theaters stdAgents pol lg) =
     spec_successProbability
       (length (filter isActiveBlue (allAgentsOf m theaters stdAgents)))
       (length (filter isLivingRed (allAgentsOf m theaters stdAgents)))
       (forceLevel pol) (roe pol) (supplyRate lg) (commsReliability lg)
   \<and> successProbability (updateMissionMetrics StandardMode []
        (replicate 10 exBlue @ replicate 5 exRed) (exPolicy Standard) (exLogistics 100 100 100))
       = 80
   \<and> successProbability (updateMissionMetrics MultiTheater
        [exTheater (replicate 6 exBlue @ replicate 2 exRed),
         exTheater (replicate 4 exBlue @ replicate 3 exRed)] []
        (exPolicy Standard) (exLogistics 100 100 100))
       = 80"
  using successProbability_code successProbability_example_standard
    successProbability_example_multi
  by blast


section \<open>Health across the damage pass\<close>

lemma damagePassStandard_health: "list_all2 healthOk us (damagePassStandard us)"
  by (simp add: damagePassStandard_def list_all2_map2 healthOk_def damageAgentStandard_health
      list_all2_same)

lemma damagePassMulti_health: "list_all2 healthOk us (fst (damagePassMulti rnd pol lg us k))"
  unfolding damagePassMulti_def
  by (rule mapRand_all2) (simp add: healthOk_def damageAgentMulti_health)

lemma updateStandardMode_health:
  "list_all2 healthOk prev (fst (updateStandardMode rnd s pol lg prev k))"
proof -
  obtain us k' where mv: "movementPassStandard rnd s prev k = (us, k')"
    by (cases "movementPassStandard rnd s prev k")
  have "list_all2 (\<lambda>a a'. team a' = team a \<and> health a' = health a) prev
          (fst (movementPassStandard rnd s prev k))"
    unfolding movementPassStandard_def
    by (rule mapRand_all2) (simp add: moveAgentStandard_keeps)
  then have m: "list_all2 (\<lambda>a a'. team a' = team a \<and> health a' = health a) prev us"
    using mv by simp
  have "list_all2 healthOk prev (damagePassStandard us)"
    by (rule list_all2_trans_rel [OF m damagePassStandard_health]) (simp add: healthOk_def)
  then show ?thesis by (simp add: updateStandardMode_def mv)
qed

lemma updateTheater_health:
  "list_all2 healthOk (agents th) (agents (fst (updateTheater rnd s pol lg th k)))"
proof -
  obtain us k' where mv: "movementPassMulti rnd s pol lg (agents th) k = (us, k')"
    by (cases "movementPassMulti rnd s pol lg (agents th) k")
  obtain fs k'' where dm: "damagePassMulti rnd pol lg us k' = (fs, k'')"
    by (cases "damagePassMulti rnd pol lg us k'")
  have "list_all2 (\<lambda>a a'. team a' = team a \<and> health a' = health a) (agents th)
          (fst (movementPassMulti rnd s pol lg (agents th) k))"
    unfolding movementPassMulti_def
    by (rule mapRand_all2) (simp add: moveAgentMulti_keeps)
  then have m: "list_all2 (\<lambda>a a'. team a' = team a \<and> health a' = health a) (agents th) us"
    using mv by simp
  have d: "list_all2 healthOk us fs"
    using damagePassMulti_health [of us rnd pol lg k'] dm by simp
  have "list_all2 healthOk (agents th) fs"
    by (rule list_all2_trans_rel [OF m d]) (simp add: healthOk_def)
  then show ?thesis by (simp add: updateTheater_def mv dm)
qed

lemma updateMultiTheater_health:
  "list_all2 (\<lambda>th th'. list_all2 healthOk (agents th) (agents th')) prev
     (fst (updateMultiTheater rnd s pol lg prev k))"
  unfolding updateMultiTheater_def
  by (rule mapRand_all2) (rule updateTheater_health)

lemma redHealthy_step:
  "list_all2 healthOk xs ys \<Longrightarrow> list_all2 (\<lambda>a a'. team a' = team a) xs ys
     \<Longrightarrow> list_all redHealthy xs \<Longrightarrow> list_all redHealthy ys"
  by (induction xs ys rule: list_all2_induct) (auto simp: healthOk_def redHealthy_def)

lemma updateStandardMode_team:
  "list_all2 (\<lambda>a a'. team a' = team a) prev (fst (updateStandardMode rnd s pol lg prev k))"
proof -
  obtain us k' where mv: "movementPassStandard rnd s prev k = (us, k')"
    by (cases "movementPassStandard rnd s prev k")
  have "list_all2 (\<lambda>a a'. team a' = team a) prev (fst (movementPassStandard rnd s prev k))"
    unfolding movementPassStandard_def
    by (rule mapRand_all2) (simp add: moveAgentStandard_keeps)
  then have m: "list_all2 (\<lambda>a a'. team a' = team a) prev us"
    using mv by simp
  have d: "list_all2 (\<lambda>a a'. team a' = team a) us (damagePassStandard us)"
    by (simp add: damagePassStandard_def list_all2_map2 damageAgentStandard_pos list_all2_same)
  have "list_all2 (\<lambda>a a'. team a' = team a) prev (damagePassStandard us)"
    by (rule list_all2_trans_rel [OF m d]) simp
  then show ?thesis by (simp add: updateStandardMode_def mv)
qed

lemma updateTheater_team:
  "list_all2 (\<lambda>a a'. team a' = team a) (agents th)
     (agents (fst (updateTheater rnd s pol lg th k)))"
proof -
  obtain us k' where mv: "movementPassMulti rnd s pol lg (agents th) k = (us, k')"
    by (cases "movementPassMulti rnd s pol lg (agents th) k")
  obtain fs k'' where dm: "damagePassMulti rnd pol lg us k' = (fs, k'')"
    by (cases "damagePassMulti rnd pol lg us k'")
  have "list_all2 (\<lambda>a a'. team a' = team a) (agents th)
          (fst (movementPassMulti rnd s pol lg (agents th) k))"
    unfolding movementPassMulti_def
    by (rule mapRand_all2) (simp add: moveAgentMulti_keeps)
  then have m: "list_all2 (\<lambda>a a'. team a' = team a) (agents th) us"
    using mv by simp
  have "list_all2 (\<lambda>a a'. team a' = team a) us (fst (damagePassMulti rnd pol lg us k'))"
    unfolding damagePassMulti_def
    by (rule mapRand_all2) (simp add: damageAgentMulti_pos)
  then have d: "list_all2 (\<lambda>a a'. team a' = team a) us fs"
    using dm by simp
  have "list_all2 (\<lambda>a a'. team a' = team a) (agents th) fs"
    by (rule list_all2_trans_rel [OF m d]) simp
  then show ?thesis by (simp add: updateTheater_def mv dm)
qed

lemma updateStandardMode_redHealthy:
  "list_all redHealthy prev \<Longrightarrow>
     list_all redHealthy (fst (updateStandardMode rnd s pol lg prev k))"
  by (rule redHealthy_step [OF updateStandardMode_health updateStandardMode_team])

lemma updateTheater_redHealthy:
  "theaterHealthy th \<Longrightarrow> theaterHealthy (fst (updateTheater rnd s pol lg th k))"
  unfolding theaterHealthy_def
  by (rule redHealthy_step [OF updateTheater_health updateTheater_team])

lemma updateMultiTheater_redHealthy:
  assumes "list_all theaterHealthy prev"
  shows "list_all theaterHealthy (fst (updateMultiTheater rnd s pol lg prev k))"
proof -
  have "list_all2 (\<lambda>a a'. theaterHealthy a \<longrightarrow> theaterHealthy a') prev
          (fst (updateMultiTheater rnd s pol lg prev k))"
    unfolding updateMultiTheater_def
    by (rule mapRand_all2) (simp add: updateTheater_redHealthy)
  then show ?thesis using assms list_all2_pres by blast
qed

lemma runStandard_redHealthy:
  "list_all redHealthy (fst w) \<Longrightarrow> list_all redHealthy (fst (runStandard rnd inputs w))"
  by (induction inputs arbitrary: w) (simp_all add: updateStandardMode_redHealthy)

lemma runMultiTheater_redHealthy:
  "list_all theaterHealthy (fst w) \<Longrightarrow>
     list_all theaterHealthy (fst (runMultiTheater rnd inputs w))"
  by (induction inputs arbitrary: w) (simp_all add: updateMultiTheater_redHealthy)

lemma initStandardMode_redHealthy: "list_all redHealthy (fst (initStandardMode rnd k))"
proof -
  obtain bl k' where b: "mapRand (newBlueStandard rnd) [0..<20] k = (bl, k')"
    by (cases "mapRand (newBlueStandard rnd) [0..<20] k")
  obtain rd k'' where r: "mapRand (newRedStandard rnd) [0..<6] k' = (rd, k'')"
    by (cases "mapRand (newRedStandard rnd) [0..<6] k'")
  have "list_all redHealthy (fst (mapRand (newBlueStandard rnd) [0..<20] k))"
    by (rule mapRand_all) (simp add: newBlueStandard_def Math_random_def redHealthy_def)
  moreover have "list_all redHealthy (fst (mapRand (newRedStandard rnd) [0..<6] k'))"
    by (rule mapRand_all) (simp add: newRedStandard_def Math_random_def redHealthy_def)
  ultimately show ?thesis
    by (simp add: initStandardMode_def b r)
qed

lemma newTheater_redHealthy: "theaterHealthy (fst (newTheater rnd t k))"
proof -
  define na where "na = 8 + nat \<lfloor>rnd k * 5\<rfloor>"
  define nt where "nt = 2 + nat \<lfloor>rnd (Suc k) * 3\<rfloor>"
  obtain bl k3 where b: "mapRand (newBlueMulti rnd t) [0..<na] (Suc (Suc k)) = (bl, k3)"
    by (cases "mapRand (newBlueMulti rnd t) [0..<na] (Suc (Suc k))")
  obtain rd k4 where r: "mapRand (newRedMulti rnd t) [0..<nt] k3 = (rd, k4)"
    by (cases "mapRand (newRedMulti rnd t) [0..<nt] k3")
  have "list_all redHealthy (fst (mapRand (newBlueMulti rnd t) [0..<na] (Suc (Suc k))))"
    by (rule mapRand_all) (simp add: newBlueMulti_def Math_random_def redHealthy_def)
  moreover have "list_all redHealthy (fst (mapRand (newRedMulti rnd t) [0..<nt] k3))"
    by (rule mapRand_all) (simp add: newRedMulti_def Math_random_def redHealthy_def)
  ultimately have "list_all redHealthy (bl @ rd)"
    using b r by simp
  moreover have "agents (fst (newTheater rnd t k)) = bl @ rd"
    unfolding newTheater_def Math_random_def Let_def prod.case
      na_def [symmetric] nt_def [symmetric] b r
    by simp
  ultimately show ?thesis
    by (simp add: theaterHealthy_def)
qed

lemma initMultiTheater_redHealthy: "list_all theaterHealthy (fst (initMultiTheater rnd k))"
  unfolding initMultiTheater_def
  by (rule mapRand_all) (rule newTheater_redHealthy)

text \<open>
  C5. Across every damage pass, of the standard and of the multi-theater update and on any
  roster, the health of every red agent does not grow, and a health that is not negative
  before the pass is not negative after it. The same holds across the whole tick of either
  mode, since the movement pass leaves team and health alone. In every world reached from
  the initialisation of a mode by any sequence of ticks the health of every red agent lies
  between 0 and 100.
\<close>

theorem health_nonincreasing_nonnegative:
  "list_all2 healthOk us (damagePassStandard us)
   \<and> list_all2 healthOk us (fst (damagePassMulti rnd pol lg us k))
   \<and> list_all2 healthOk prev (fst (updateStandardMode rnd s pol lg prev k))
   \<and> list_all2 (\<lambda>th th'. list_all2 healthOk (agents th) (agents th')) prevTheaters
        (fst (updateMultiTheater rnd s pol lg prevTheaters k))
   \<and> list_all redHealthy (fst (runStandard rnd inputs (initStandardMode rnd k)))
   \<and> list_all theaterHealthy (fst (runMultiTheater rnd inputs (initMultiTheater rnd k)))"
  by (simp add: damagePassStandard_health damagePassMulti_health updateStandardMode_health
      updateMultiTheater_health runStandard_redHealthy runMultiTheater_redHealthy
      initStandardMode_redHealthy initMultiTheater_redHealthy)

theorem health_nonincreasing_nonnegative_witness:
  "team exRedNear = Red \<and> 0 \<le> health exRedNear
   \<and> health (damagePassStandard [exBlue, exRedNear] ! 1) \<le> health exRedNear
   \<and> 0 \<le> health (damagePassStandard [exBlue, exRedNear] ! 1)
   \<and> health (fst (damagePassMulti (\<lambda>_. 0) (exPolicy Aggressive) (exLogistics 100 100 100)
                [exBlue, exRedNear] 0) ! 1) \<le> health exRedNear
   \<and> 0 \<le> health (fst (damagePassMulti (\<lambda>_. 0) (exPolicy Aggressive) (exLogistics 100 100 100)
                [exBlue, exRedNear] 0) ! 1)"
proof -
  have red: "team exRedNear = Red" and pos: "0 \<le> health exRedNear"
    by (simp_all add: exRedNear_def)
  have s0: "list_all2 healthOk [exBlue, exRedNear] (damagePassStandard [exBlue, exRedNear])"
    by (rule health_nonincreasing_nonnegative [THEN conjunct1])
  have s: "healthOk exRedNear (damagePassStandard [exBlue, exRedNear] ! 1)"
    using list_all2_nthD [OF s0, of 1] by simp
  have m0: "list_all2 healthOk [exBlue, exRedNear]
          (fst (damagePassMulti (\<lambda>_. 0) (exPolicy Aggressive) (exLogistics 100 100 100)
                 [exBlue, exRedNear] 0))"
    by (rule health_nonincreasing_nonnegative [THEN conjunct2, THEN conjunct1])
  have m: "healthOk exRedNear
          (fst (damagePassMulti (\<lambda>_. 0) (exPolicy Aggressive) (exLogistics 100 100 100)
                 [exBlue, exRedNear] 0) ! 1)"
    using list_all2_nthD [OF m0, of 1] by simp
  show ?thesis
    using red pos s m by (simp add: healthOk_def)
qed

section \<open>Positions stay inside the arena\<close>

lemma damagePassStandard_inArena:
  "list_all inArena us \<Longrightarrow> list_all inArena (damagePassStandard us)"
  by (simp add: damagePassStandard_def list_all_iff inArena_def damageAgentStandard_pos)

lemma updateStandardMode_inArena:
  assumes "list_all inArena prev"
  shows "list_all inArena (fst (updateStandardMode rnd s pol lg prev k))"
proof -
  obtain us k' where mv: "movementPassStandard rnd s prev k = (us, k')"
    by (cases "movementPassStandard rnd s prev k")
  have "list_all2 (\<lambda>a a'. inArena a \<longrightarrow> inArena a') prev
          (fst (movementPassStandard rnd s prev k))"
    unfolding movementPassStandard_def
    by (rule mapRand_all2) (simp add: moveAgentStandard_inArena)
  then have "list_all inArena us"
    using assms mv list_all2_pres [of inArena prev us] by simp
  then show ?thesis
    by (simp add: updateStandardMode_def mv damagePassStandard_inArena)
qed

lemma updateTheater_inArena:
  assumes "theaterInArena th"
  shows "theaterInArena (fst (updateTheater rnd s pol lg th k))"
proof -
  obtain us k' where mv: "movementPassMulti rnd s pol lg (agents th) k = (us, k')"
    by (cases "movementPassMulti rnd s pol lg (agents th) k")
  obtain fs k'' where dm: "damagePassMulti rnd pol lg us k' = (fs, k'')"
    by (cases "damagePassMulti rnd pol lg us k'")
  have "list_all2 (\<lambda>a a'. inArena a \<longrightarrow> inArena a') (agents th)
          (fst (movementPassMulti rnd s pol lg (agents th) k))"
    unfolding movementPassMulti_def
    by (rule mapRand_all2) (simp add: moveAgentMulti_inArena)
  then have u: "list_all inArena us"
    using assms mv list_all2_pres [of inArena "agents th" us] by (simp add: theaterInArena_def)
  have "list_all2 (\<lambda>a a'. inArena a \<longrightarrow> inArena a') us (fst (damagePassMulti rnd pol lg us k'))"
    unfolding damagePassMulti_def
    by (rule mapRand_all2) (simp add: inArena_def damageAgentMulti_pos)
  then have "list_all inArena fs"
    using u dm list_all2_pres [of inArena us fs] by simp
  then show ?thesis by (simp add: updateTheater_def mv dm theaterInArena_def)
qed

lemma updateMultiTheater_inArena:
  assumes "list_all theaterInArena prev"
  shows "list_all theaterInArena (fst (updateMultiTheater rnd s pol lg prev k))"
proof -
  have "list_all2 (\<lambda>a a'. theaterInArena a \<longrightarrow> theaterInArena a') prev
          (fst (updateMultiTheater rnd s pol lg prev k))"
    unfolding updateMultiTheater_def
    by (rule mapRand_all2) (simp add: updateTheater_inArena)
  then show ?thesis using assms list_all2_pres by blast
qed

lemma runStandard_inArena:
  "list_all inArena (fst w) \<Longrightarrow> list_all inArena (fst (runStandard rnd inputs w))"
  by (induction inputs arbitrary: w) (simp_all add: updateStandardMode_inArena)

lemma runMultiTheater_inArena:
  "list_all theaterInArena (fst w) \<Longrightarrow>
     list_all theaterInArena (fst (runMultiTheater rnd inputs w))"
  by (induction inputs arbitrary: w) (simp_all add: updateMultiTheater_inArena)

lemma unitRange_scale:
  assumes "unitRange rnd" "0 \<le> c" "c \<le> 1"
  shows "0 \<le> rnd k * GRID_SIZE * c \<and> rnd k * GRID_SIZE * c \<le> GRID_SIZE"
proof -
  define p where "p = rnd k * c"
  have r: "0 \<le> rnd k" "rnd k \<le> 1"
    using assms(1) by (auto simp: unitRange_def intro: less_imp_le)
  have "rnd k * c \<le> 1 * 1" using r assms by (intro mult_mono) auto
  then have p1: "p \<le> 1" by (simp add: p_def)
  have p0: "0 \<le> p" using r assms by (simp add: p_def)
  have eq: "rnd k * GRID_SIZE * c = p * 400" by (simp add: GRID_SIZE_def p_def)
  show ?thesis using p0 p1 by (simp only: eq) (simp add: GRID_SIZE_def)
qed

lemma unitRange_shift:
  assumes "unitRange rnd" "0 \<le> c" "c \<le> 3 / 10"
  shows "0 \<le> GRID_SIZE * 0.7 + rnd k * GRID_SIZE * c
       \<and> GRID_SIZE * 0.7 + rnd k * GRID_SIZE * c \<le> GRID_SIZE"
proof -
  define p where "p = rnd k * c"
  have r: "0 \<le> rnd k" "rnd k \<le> 1"
    using assms(1) by (auto simp: unitRange_def intro: less_imp_le)
  have "rnd k * c \<le> 1 * (3 / 10)" using r assms by (intro mult_mono) auto
  then have p1: "p \<le> 3 / 10" by (simp add: p_def)
  have p0: "0 \<le> p" using r assms by (simp add: p_def)
  have eq: "rnd k * GRID_SIZE * c = p * 400" by (simp add: GRID_SIZE_def p_def)
  show ?thesis using p0 p1 by (simp only: eq) (simp add: GRID_SIZE_def)
qed

lemma newBlueStandard_inArena: "unitRange rnd \<Longrightarrow> inArena (fst (newBlueStandard rnd i k))"
  using unitRange_scale [of rnd "0.3" k] unitRange_scale [of rnd 1 "Suc k"]
  by (simp add: newBlueStandard_def Math_random_def inArena_def)

lemma newRedStandard_inArena: "unitRange rnd \<Longrightarrow> inArena (fst (newRedStandard rnd i k))"
  using unitRange_shift [of rnd "0.2" k] unitRange_scale [of rnd 1 "Suc k"]
  by (simp add: newRedStandard_def Math_random_def inArena_def)

lemma newBlueMulti_inArena: "unitRange rnd \<Longrightarrow> inArena (fst (newBlueMulti rnd t i k))"
  using unitRange_scale [of rnd "0.25" k] unitRange_scale [of rnd 1 "Suc k"]
  by (simp add: newBlueMulti_def Math_random_def inArena_def)

lemma newRedMulti_inArena: "unitRange rnd \<Longrightarrow> inArena (fst (newRedMulti rnd t i k))"
  using unitRange_shift [of rnd "0.25" k] unitRange_scale [of rnd 1 "Suc k"]
  by (simp add: newRedMulti_def Math_random_def inArena_def)

lemma initStandardMode_inArena:
  assumes "unitRange rnd"
  shows "list_all inArena (fst (initStandardMode rnd k))"
proof -
  obtain bl k' where b: "mapRand (newBlueStandard rnd) [0..<20] k = (bl, k')"
    by (cases "mapRand (newBlueStandard rnd) [0..<20] k")
  obtain rd k'' where r: "mapRand (newRedStandard rnd) [0..<6] k' = (rd, k'')"
    by (cases "mapRand (newRedStandard rnd) [0..<6] k'")
  have "list_all inArena (fst (mapRand (newBlueStandard rnd) [0..<20] k))"
    by (rule mapRand_all) (simp add: newBlueStandard_inArena assms)
  moreover have "list_all inArena (fst (mapRand (newRedStandard rnd) [0..<6] k'))"
    by (rule mapRand_all) (simp add: newRedStandard_inArena assms)
  ultimately show ?thesis
    by (simp add: initStandardMode_def b r)
qed

lemma newTheater_inArena:
  assumes "unitRange rnd"
  shows "theaterInArena (fst (newTheater rnd t k))"
proof -
  define na where "na = 8 + nat \<lfloor>rnd k * 5\<rfloor>"
  define nt where "nt = 2 + nat \<lfloor>rnd (Suc k) * 3\<rfloor>"
  obtain bl k3 where b: "mapRand (newBlueMulti rnd t) [0..<na] (Suc (Suc k)) = (bl, k3)"
    by (cases "mapRand (newBlueMulti rnd t) [0..<na] (Suc (Suc k))")
  obtain rd k4 where r: "mapRand (newRedMulti rnd t) [0..<nt] k3 = (rd, k4)"
    by (cases "mapRand (newRedMulti rnd t) [0..<nt] k3")
  have "list_all inArena (fst (mapRand (newBlueMulti rnd t) [0..<na] (Suc (Suc k))))"
    by (rule mapRand_all) (simp add: newBlueMulti_inArena assms)
  moreover have "list_all inArena (fst (mapRand (newRedMulti rnd t) [0..<nt] k3))"
    by (rule mapRand_all) (simp add: newRedMulti_inArena assms)
  ultimately have "list_all inArena (bl @ rd)"
    using b r by simp
  moreover have "agents (fst (newTheater rnd t k)) = bl @ rd"
    unfolding newTheater_def Math_random_def Let_def prod.case
      na_def [symmetric] nt_def [symmetric] b r
    by simp
  ultimately show ?thesis
    by (simp add: theaterInArena_def)
qed

lemma initMultiTheater_inArena:
  "unitRange rnd \<Longrightarrow> list_all theaterInArena (fst (initMultiTheater rnd k))"
  unfolding initMultiTheater_def
  by (rule mapRand_all) (simp add: newTheater_inArena)

text \<open>
  C6. After every tick every agent lies within \<open>[0, GRID_SIZE]\<close> on both axes, in standard
  and in multi-theater mode: the world created by the initialisation of the mode from a
  random source with values in \<open>[0, 1)\<close> lies in the arena, and so does the world after any
  sequence of ticks, whatever strategy, policy and logistics each tick reads.
\<close>

theorem positions_stay_in_arena:
  assumes "unitRange rnd"
  shows "list_all inArena (fst (runStandard rnd inputs (initStandardMode rnd k)))
       \<and> list_all theaterInArena (fst (runMultiTheater rnd inputs (initMultiTheater rnd k)))"
  using assms
  by (simp add: runStandard_inArena runMultiTheater_inArena initStandardMode_inArena
      initMultiTheater_inArena)

theorem positions_stay_in_arena_witness:
  "unitRange (\<lambda>_. 1 / 2)
   \<and> list_all inArena
       (fst (runStandard (\<lambda>_. 1 / 2)
          [\<lparr>tiStrategy = ''flank'', tiPolicy = exPolicy Aggressive,
            tiLogistics = exLogistics 100 100 100\<rparr>]
          (initStandardMode (\<lambda>_. 1 / 2) 0)))
   \<and> list_all theaterInArena
       (fst (runMultiTheater (\<lambda>_. 1 / 2)
          [\<lparr>tiStrategy = ''flank'', tiPolicy = exPolicy Aggressive,
            tiLogistics = exLogistics 100 100 100\<rparr>]
          (initMultiTheater (\<lambda>_. 1 / 2) 0)))"
proof -
  have u: "unitRange (\<lambda>_. 1 / 2)" by (simp add: unitRange_def)
  show ?thesis
    using u positions_stay_in_arena [OF u,
        of "[\<lparr>tiStrategy = ''flank'', tiPolicy = exPolicy Aggressive,
              tiLogistics = exLogistics 100 100 100\<rparr>]" 0]
    by blast
qed


section \<open>The leaderboard\<close>

lemma sortedDesc_sort: "sortedDesc (sortByScoreDesc cs)"
proof -
  have "sorted (map (\<lambda>c. - score c) (sort_key (\<lambda>c. - score c) cs))"
    by (rule sorted_sort_key)
  then show ?thesis
    by (simp add: sortedDesc_def sortByScoreDesc_def sorted_map)
qed

lemma sortedDesc_take: "sortedDesc cs \<Longrightarrow> sortedDesc (take n cs)"
  by (simp add: sortedDesc_def sorted_wrt_take)

lemma evaluatePeriodic_ok:
  "leaderboardOk 10 sk \<Longrightarrow> leaderboardOk 10 (evaluatePeriodic rnd c sk)"
  by (auto simp: leaderboardOk_def evaluatePeriodic_def Let_def sortedDesc_sort sortedDesc_take
      split: prod.splits)

lemma evaluateContinuous_ok:
  "leaderboardOk 50 sk \<Longrightarrow> leaderboardOk 50 (evaluateContinuous rnd c sk)"
  by (auto simp: leaderboardOk_def evaluateContinuous_def Let_def sortedDesc_sort sortedDesc_take
      split: prod.splits)

lemma foldl_ok:
  "(\<And>c s. P s \<Longrightarrow> P (f s c)) \<Longrightarrow> P s0 \<Longrightarrow> P (foldl f s0 cs)"
  by (induction cs arbitrary: s0) auto

text \<open>
  C7. After any number of strategy evaluations, started from the reset state, the leaderboard
  is sorted by score in descending order and holds at most 10 entries in the periodic-switch
  variant and at most 50 in the continuous-exploration variant.
\<close>

theorem leaderboard_sorted_and_bounded:
  "sortedDesc (bestCOAs (fst (foldl (\<lambda>sk c. evaluatePeriodic rnd c sk)
                                (resetEvaluation, k) calls)))
   \<and> length (bestCOAs (fst (foldl (\<lambda>sk c. evaluatePeriodic rnd c sk)
                                (resetEvaluation, k) calls))) \<le> 10
   \<and> sortedDesc (bestCOAs (fst (foldl (\<lambda>sk c. evaluateContinuous rnd c sk)
                                (resetEvaluation, k) calls)))
   \<and> length (bestCOAs (fst (foldl (\<lambda>sk c. evaluateContinuous rnd c sk)
                                (resetEvaluation, k) calls))) \<le> 50"
proof -
  have init10: "leaderboardOk 10 (resetEvaluation, k)"
    and init50: "leaderboardOk 50 (resetEvaluation, k)"
    by (simp_all add: leaderboardOk_def resetEvaluation_def sortedDesc_def)
  have "leaderboardOk 10 (foldl (\<lambda>sk c. evaluatePeriodic rnd c sk) (resetEvaluation, k) calls)"
    by (rule foldl_ok [where P = "leaderboardOk 10"]) (simp_all add: evaluatePeriodic_ok init10)
  moreover have
    "leaderboardOk 50 (foldl (\<lambda>sk c. evaluateContinuous rnd c sk) (resetEvaluation, k) calls)"
    by (rule foldl_ok [where P = "leaderboardOk 50"]) (simp_all add: evaluateContinuous_ok init50)
  ultimately show ?thesis by (simp add: leaderboardOk_def)
qed

section \<open>The agent number of the steering function\<close>

lemma lt10_cases:
  "d < 10 \<Longrightarrow> d = 0 \<or> d = 1 \<or> d = 2 \<or> d = 3 \<or> d = 4 \<or> d = 5 \<or> d = 6 \<or> d = 7 \<or> d = 8
     \<or> d = (9::nat)"
  by arith

lemma char_of_digit:
  "char_of (48::nat) = CHR ''0''" "char_of (49::nat) = CHR ''1''"
  "char_of (50::nat) = CHR ''2''" "char_of (51::nat) = CHR ''3''"
  "char_of (52::nat) = CHR ''4''" "char_of (53::nat) = CHR ''5''"
  "char_of (54::nat) = CHR ''6''" "char_of (55::nat) = CHR ''7''"
  "char_of (56::nat) = CHR ''8''" "char_of (57::nat) = CHR ''9''"
proof -
  have e: "(48::nat) = of_char (CHR ''0'')" "(49::nat) = of_char (CHR ''1'')"
    "(50::nat) = of_char (CHR ''2'')" "(51::nat) = of_char (CHR ''3'')"
    "(52::nat) = of_char (CHR ''4'')" "(53::nat) = of_char (CHR ''5'')"
    "(54::nat) = of_char (CHR ''6'')" "(55::nat) = of_char (CHR ''7'')"
    "(56::nat) = of_char (CHR ''8'')" "(57::nat) = of_char (CHR ''9'')"
    by simp_all
  show "char_of (48::nat) = CHR ''0''" by (subst e(1)) (rule char_of_char)
  show "char_of (49::nat) = CHR ''1''" by (subst e(2)) (rule char_of_char)
  show "char_of (50::nat) = CHR ''2''" by (subst e(3)) (rule char_of_char)
  show "char_of (51::nat) = CHR ''3''" by (subst e(4)) (rule char_of_char)
  show "char_of (52::nat) = CHR ''4''" by (subst e(5)) (rule char_of_char)
  show "char_of (53::nat) = CHR ''5''" by (subst e(6)) (rule char_of_char)
  show "char_of (54::nat) = CHR ''6''" by (subst e(7)) (rule char_of_char)
  show "char_of (55::nat) = CHR ''7''" by (subst e(8)) (rule char_of_char)
  show "char_of (56::nat) = CHR ''8''" by (subst e(9)) (rule char_of_char)
  show "char_of (57::nat) = CHR ''9''" by (subst e(10)) (rule char_of_char)
qed

lemma isDigit_char_of: "d < 10 \<Longrightarrow> isDigit (char_of (48 + d :: nat))"
  using lt10_cases [of d] by (auto simp: isDigit_def char_of_digit)

lemma digitVal_char_of: "d < 10 \<Longrightarrow> digitVal (char_of (48 + d :: nat)) = d"
  by (simp add: digitVal_def of_char_of)


lemma showNat_digits: "list_all isDigit (showNat n)"
proof (induction n rule: showNat.induct)
  case (1 n)
  show ?case
  proof (cases "n < 10")
    case True
    then show ?thesis by (simp add: showNat.simps [of n] isDigit_char_of)
  next
    case False
    then have "list_all isDigit (showNat (n div 10))" using 1 by simp
    moreover have "isDigit (char_of (48 + n mod 10))" by (rule isDigit_char_of) simp
    ultimately show ?thesis using False by (simp add: showNat.simps [of n])
  qed
qed

lemma showNat_nonempty: "showNat n \<noteq> []"
  by (simp add: showNat.simps [of n])

lemma parseInt_snoc: "parseInt (ds @ [c]) = 10 * parseInt ds + digitVal c"
  by (simp add: parseInt_def)

lemma parseInt_showNat: "parseInt (showNat n) = n"
proof (induction n rule: showNat.induct)
  case (1 n)
  show ?case
  proof (cases "n < 10")
    case True
    then show ?thesis by (simp add: showNat.simps [of n] parseInt_def digitVal_char_of)
  next
    case False
    then have "parseInt (showNat (n div 10)) = n div 10" using 1 by simp
    moreover have "digitVal (char_of (48 + n mod 10)) = n mod 10"
      by (rule digitVal_char_of) simp
    ultimately show ?thesis using False by (simp add: showNat.simps [of n] parseInt_snoc)
  qed
qed


lemma matchDigits_run:
  assumes "\<forall>c \<in> set pre. \<not> isDigit c" and "list_all isDigit ds" and "ds \<noteq> []"
    and "rest = [] \<or> \<not> isDigit (hd rest)"
  shows "matchDigits (pre @ ds @ rest) = Some ds"
proof -
  have d: "dropWhile (\<lambda>c. \<not> isDigit c) (pre @ ds @ rest) = ds @ rest"
  proof -
    have "dropWhile (\<lambda>c. \<not> isDigit c) (pre @ ds @ rest) = dropWhile (\<lambda>c. \<not> isDigit c) (ds @ rest)"
      using assms(1) by (simp add: dropWhile_append2)
    moreover have "dropWhile (\<lambda>c. \<not> isDigit c) (ds @ rest) = ds @ rest"
      using assms(2,3) by (cases ds) simp_all
    ultimately show ?thesis by simp
  qed
  have "takeWhile isDigit rest = []"
    using assms(4) by (cases rest) simp_all
  then have "takeWhile isDigit (ds @ rest) = ds"
    using assms(2) by (simp add: takeWhile_append2 list_all_iff)
  then show ?thesis
    using d assms(3) by (simp add: matchDigits_def)
qed

lemma nondigit_letters: "\<not> isDigit CHR ''b''" "\<not> isDigit CHR ''t''" "\<not> isDigit CHR ''-''"
  by (simp_all add: isDigit_def)

lemma agentNum_standard_id: "agentNumOf (''b'' @ showNat i) = i"
proof -
  have "matchDigits (''b'' @ showNat i @ []) = Some (showNat i)"
    by (rule matchDigits_run) (simp_all add: nondigit_letters showNat_digits showNat_nonempty)
  then show ?thesis
    by (simp add: agentNumOf_def parseInt_showNat)
qed

lemma agentNum_multi_id: "agentNumOf (''t'' @ showNat t @ ''-b'' @ showNat i) = t"
proof -
  have "matchDigits (''t'' @ showNat t @ (''-b'' @ showNat i)) = Some (showNat t)"
    by (rule matchDigits_run) (simp_all add: nondigit_letters showNat_digits showNat_nonempty)
  then show ?thesis
    by (simp add: agentNumOf_def parseInt_showNat)
qed

lemma agentNum_of_new_agents:
  "agentNumOf (agentId (fst (newBlueStandard rnd i k))) = i
   \<and> agentNumOf (agentId (fst (newBlueMulti rnd t i k))) = t"
  using agentNum_standard_id [of i] agentNum_multi_id [of t i]
  by (simp add: newBlueStandard_def newBlueMulti_def Math_random_def)

text \<open>
  C8. The claim: under \<open>flank\<close> the sign of the 60 degree offset follows the parity of the
  sequential number of the agent, the numeric suffix of its id, also for the multi-theater
  ids. For the agent \<^verbatim>\<open>t2-b3\<close> at the origin with its target at \<open>(100, 0)\<close> the suffix 3 is
  odd and the claim asks for the angle \<open>- \<pi> / 3\<close>. The code takes the leftmost run of digits
  of the id, which is the theater index 2, and steers at \<open>+ \<pi> / 3\<close> with speed 2: the
  velocity is \<open>(1, sqrt 3)\<close>. For a standard id such as \<^verbatim>\<open>b3\<close> the leftmost run is
  the suffix. So it is for every agent the initialisation creates: in standard mode the
  agent number is the sequential number, in multi-theater mode it is the theater index.
\<close>

theorem flank_uses_theater_index:
  "agentNumOf (agentId (fst (newBlueStandard rnd0 i k0))) = i
   \<and> agentNumOf (agentId (fst (newBlueMulti rnd0 t i k0))) = t
   \<and> agentNumOf ''b3'' = 3
   \<and> agentNumOf (agentId exFlanker) = 2
   \<and> fst (strategyAngleSpeed rnd exFlanker exRed ''flank'' 0 k) = (pi / 3, 2)
   \<and> fst (getStrategyBehavior rnd exFlanker (Some exRed) ''flank'' None k) = (1, sqrt 3)"
proof -
  have a: "strategyAngleSpeed rnd exFlanker exRed ''flank'' 0 k = ((pi / 3, 2), k)"
    by (simp add: strategyAngleSpeed_def agentNum_flanker strategies_def Let_def)
       (simp add: exFlanker_def exRed_def atan2_axis)
  have b: "agentNumOf ''b3'' = 3"
    by (simp add: agentNumOf_def matchDigits_def isDigit_def parseInt_def digitVal_def)
  show ?thesis
    using agentNum_of_new_agents [of rnd0 i k0 t]
    by (simp add: agentNum_flanker a b getStrategyBehavior_def cos_60 sin_60)
qed

section \<open>Time to objective\<close>

lemma timeToObjective_pos:
  "0 < supplyRate lg + commsReliability lg \<Longrightarrow>
   timeToObjective (updateMissionMetrics m theaters stdAgents pol lg)
     = Num (of_int \<lfloor>100 / ((supplyRate lg + commsReliability lg) / 200 * 2)\<rfloor>)
   \<and> isNonNegInteger (timeToObjective (updateMissionMetrics m theaters stdAgents pol lg))"
  by (simp add: updateMissionMetrics_def Let_def js_div_def Math_floor_def isNonNegInteger_def)

lemma timeToObjective_zero:
  "supplyRate lg + commsReliability lg = 0 \<Longrightarrow>
   timeToObjective (updateMissionMetrics m theaters stdAgents pol lg) = PosInfinity"
  by (simp add: updateMissionMetrics_def Let_def js_div_def Math_floor_def)

text \<open>
  C9, the claim as stated fails: with supply rate 0 and comms reliability 0 the logistics
  factor is 0, the division yields \<^verbatim>\<open>Infinity\<close> and so does \<^verbatim>\<open>Math.floor\<close>. The result is
  not a finite number, and so not a non-negative integer.
\<close>

theorem timeToObjective_infinite_at_zero:
  "timeToObjective (updateMissionMetrics StandardMode [] [exBlue, exRed]
       (exPolicy Standard) (exLogistics 0 0 100)) = PosInfinity
   \<and> \<not> isNonNegInteger (timeToObjective (updateMissionMetrics StandardMode [] [exBlue, exRed]
       (exPolicy Standard) (exLogistics 0 0 100)))"
  by (simp add: timeToObjective_zero exLogistics_def isNonNegInteger_def)

text \<open>
  C9, amended. The metrics engine computes \<open>timeToObjective = floor (100 / (logisticsMod * 2))\<close>
  with \<open>logisticsMod = (supplyRate + commsReliability) / 200\<close>. When the logistics factor is
  positive this is a non-negative integer. When it is 0 the code does not fail and has no
  sentinel of its own: the value is the \<^verbatim>\<open>Infinity\<close> of the division.
\<close>

theorem timeToObjective_value:
  "(0 < supplyRate lg + commsReliability lg \<longrightarrow>
      timeToObjective (updateMissionMetrics m theaters stdAgents pol lg)
        = Num (of_int \<lfloor>100 / ((supplyRate lg + commsReliability lg) / 200 * 2)\<rfloor>)
      \<and> isNonNegInteger (timeToObjective (updateMissionMetrics m theaters stdAgents pol lg)))
   \<and> (supplyRate lg + commsReliability lg = 0 \<longrightarrow>
      timeToObjective (updateMissionMetrics m theaters stdAgents pol lg) = PosInfinity)"
  using timeToObjective_pos timeToObjective_zero by blast

theorem timeToObjective_value_witness:
  "0 < supplyRate (exLogistics 100 100 100) + commsReliability (exLogistics 100 100 100)
   \<and> timeToObjective (updateMissionMetrics StandardMode [] [exBlue, exRed]
        (exPolicy Standard) (exLogistics 100 100 100)) = Num 50
   \<and> supplyRate (exLogistics 0 0 100) + commsReliability (exLogistics 0 0 100) = 0
   \<and> timeToObjective (updateMissionMetrics MultiTheater [exTheater [exBlue, exRed]] []
        (exPolicy Standard) (exLogistics 0 0 100)) = PosInfinity"
proof -
  have p: "0 < supplyRate (exLogistics 100 100 100) + commsReliability (exLogistics 100 100 100)"
    and z: "supplyRate (exLogistics 0 0 100) + commsReliability (exLogistics 0 0 100) = 0"
    by (simp_all add: exLogistics_def)
  show ?thesis
    using p z
      timeToObjective_value [of "exLogistics 100 100 100" StandardMode "[]" "[exBlue, exRed]"
        "exPolicy Standard"]
      timeToObjective_value [of "exLogistics 0 0 100" MultiTheater "[exTheater [exBlue, exRed]]"
        "[]" "exPolicy Standard"]
    by (simp add: exLogistics_def)
qed

section \<open>The elapsed time in the tick\<close>

text \<open>
  C10. Both tick engines call the steering function with three arguments, so the elapsed
  time takes its default 0: for an active blue agent with nearest living target \<open>t\<close>, under
  \<open>concentrated\<close>, the angle is the bearing plus \<open>sin agentNum * 0.3\<close> and the speed 3, in the
  standard and in the multi-theater movement. The offset is a constant of the agent: no
  elapsed time enters the movement of a tick.
\<close>

theorem concentrated_has_constant_offset:
  assumes "isActiveBlue a" and "findNearest a (filter isLivingRed roster) = Some t"
  shows "moveAgentStandard rnd ''concentrated'' roster a k =
           (let angle = atan2 (posY t - posY a) (posX t - posX a)
                          + sin (real (agentNumOf (agentId a))) * 0.3
            in (a\<lparr>vx := cos angle * 3, vy := sin angle * 3,
                  posX := clampGrid (posX a + cos angle * 3),
                  posY := clampGrid (posY a + sin angle * 3)\<rparr>, k))
       \<and> moveAgentMulti rnd ''concentrated'' pol lg roster a k =
           (let angle = atan2 (posY t - posY a) (posX t - posX a)
                          + sin (real (agentNumOf (agentId a))) * 0.3;
                m = aggressionModOf (roe pol)
            in (a\<lparr>vx := cos angle * 3 * m, vy := sin angle * 3 * m,
                  posX := clampGrid (posX a + cos angle * 3 * m * (transportCapacity lg / 100)),
                  posY := clampGrid (posY a + sin angle * 3 * m * (transportCapacity lg / 100))\<rparr>,
                k))
       \<and> getStrategyBehavior rnd a (Some t) ''concentrated'' None k
           = getStrategyBehavior rnd a (Some t) ''concentrated'' (Some 0) k"
proof -
  have same: "getStrategyBehavior rnd a (Some t) ''concentrated'' None k
           = getStrategyBehavior rnd a (Some t) ''concentrated'' (Some 0) k"
    by (simp add: getStrategyBehavior_def)
  have moves: "moveAgentStandard rnd ''concentrated'' roster a k =
           (let angle = atan2 (posY t - posY a) (posX t - posX a)
                          + sin (real (agentNumOf (agentId a))) * 0.3
            in (a\<lparr>vx := cos angle * 3, vy := sin angle * 3,
                  posX := clampGrid (posX a + cos angle * 3),
                  posY := clampGrid (posY a + sin angle * 3)\<rparr>, k))
       \<and> moveAgentMulti rnd ''concentrated'' pol lg roster a k =
           (let angle = atan2 (posY t - posY a) (posX t - posX a)
                          + sin (real (agentNumOf (agentId a))) * 0.3;
                m = aggressionModOf (roe pol)
            in (a\<lparr>vx := cos angle * 3 * m, vy := sin angle * 3 * m,
                  posX := clampGrid (posX a + cos angle * 3 * m * (transportCapacity lg / 100)),
                  posY := clampGrid (posY a + sin angle * 3 * m * (transportCapacity lg / 100))\<rparr>,
                k))"
    using assms
    by (simp add: moveAgentStandard_def moveAgentMulti_def isActiveBlue_def steer_concentrated
        Let_def)
  show ?thesis
    using moves same by blast
qed

theorem concentrated_has_constant_offset_witness:
  "isActiveBlue exBlue
   \<and> findNearest exBlue (filter isLivingRed [exBlue, exRed]) = Some exRed
   \<and> moveAgentStandard (\<lambda>_. 0) ''concentrated'' [exBlue, exRed] exBlue 0
       = (exBlue\<lparr>vx := 3, vy := 0, posX := 3, posY := 0\<rparr>, 0)
   \<and> moveAgentMulti (\<lambda>_. 0) ''concentrated'' (exPolicy Standard) (exLogistics 100 100 100)
         [exBlue, exRed] exBlue 0
       = (exBlue\<lparr>vx := 3, vy := 0, posX := 3, posY := 0\<rparr>, 0)"
proof -
  have h1: "isActiveBlue exBlue"
    by (simp add: isActiveBlue_def exBlue_def)
  have h2: "findNearest exBlue (filter isLivingRed [exBlue, exRed]) = Some exRed"
    by (simp add: isLivingRed_def exBlue_def exRed_def findNearest_single)
  have at: "atan2 (posY exRed) (posX exRed) = 0"
    by (simp add: exRed_def atan2_axis)
  have cl: "clampGrid 3 = 3" "clampGrid 0 = 0"
    by (simp_all add: clampGrid_def GRID_SIZE_def)
  have px: "posX exBlue = 0" "posY exBlue = 0"
    by (simp_all add: exBlue_def)
  have pl: "aggressionModOf (roe (exPolicy Standard)) = 1"
    "transportCapacity (exLogistics 100 100 100) = 100"
    by (simp_all add: aggressionModOf_def exPolicy_def exLogistics_def)
  show ?thesis
    using h1 h2
      concentrated_has_constant_offset [OF h1 h2, of "\<lambda>_. 0" 0 "exPolicy Standard"
        "exLogistics 100 100 100"]
    by (simp add: at agentNum_exBlue cl px pl Let_def)
qed


section \<open>Damage: standard mode against multi-theater mode\<close>

lemma move_std_near:
  "moveAgentStandard rnd ''direct'' [exBlue, exRedNear] exBlue k
     = (exBlue\<lparr>vx := 2.5, vy := 0, posX := 2.5, posY := 0\<rparr>, k)"
  by (simp add: moveAgentStandard_def isLivingRed_def findNearest_single steer_direct
      exBlue_def exRedNear_def atan2_axis clampGrid_def GRID_SIZE_def)

lemma move_std_edge:
  "moveAgentStandard rnd ''direct'' [exBlue, exRedEdge] exBlue k
     = (exBlue\<lparr>vx := 2.5, vy := 0, posX := 2.5, posY := 0\<rparr>, k)"
  by (simp add: moveAgentStandard_def isLivingRed_def findNearest_single steer_direct
      exBlue_def exRedEdge_def atan2_axis clampGrid_def GRID_SIZE_def)

lemma move_std_red: "team a = Red \<Longrightarrow> moveAgentStandard rnd s prev a k = (a, k)"
  by (simp add: moveAgentStandard_def)

lemma move_multi_red: "team a = Red \<Longrightarrow> moveAgentMulti rnd s pol lg prev a k = (a, k)"
  by (simp add: moveAgentMulti_def)

lemma team_ex: "team exRed = Red" "team exRedNear = Red" "team exRedEdge = Red"
  by (simp_all add: exRed_def exRedNear_def exRedEdge_def)

lemma tick_std_near:
  "fst (updateStandardMode rnd ''direct'' pol lg [exBlue, exRedNear] k)
     = [exBlue\<lparr>vx := 2.5, vy := 0, posX := 2.5, posY := 0\<rparr>, exRedNear\<lparr>health := 98\<rparr>]"
proof -
  have mv: "movementPassStandard rnd ''direct'' [exBlue, exRedNear] k
        = ([exBlue\<lparr>vx := 2.5, vy := 0, posX := 2.5, posY := 0\<rparr>, exRedNear], k)"
    by (simp add: movementPassStandard_def move_std_near move_std_red team_ex)
  have dm: "damagePassStandard [exBlue\<lparr>vx := 5 / 2, vy := 0, posX := 5 / 2, posY := 0\<rparr>, exRedNear]
        = [exBlue\<lparr>vx := 5 / 2, vy := 0, posX := 5 / 2, posY := 0\<rparr>, exRedNear\<lparr>health := 98\<rparr>]"
    by (simp add: damagePassStandard_def damageAgentStandard_def isActiveBlue_def
        exBlue_def exRedNear_def hypot_axis ENGAGEMENT_DISTANCE_def HIT_DAMAGE_def)
  show ?thesis
    by (simp add: updateStandardMode_def mv dm)
qed

lemma tick_std_edge:
  "fst (updateStandardMode rnd ''direct'' pol lg [exBlue, exRedEdge] k)
     = [exBlue\<lparr>vx := 2.5, vy := 0, posX := 2.5, posY := 0\<rparr>, exRedEdge\<lparr>health := 98\<rparr>]"
proof -
  have mv: "movementPassStandard rnd ''direct'' [exBlue, exRedEdge] k
        = ([exBlue\<lparr>vx := 2.5, vy := 0, posX := 2.5, posY := 0\<rparr>, exRedEdge], k)"
    by (simp add: movementPassStandard_def move_std_edge move_std_red team_ex)
  have dm: "damagePassStandard [exBlue\<lparr>vx := 5 / 2, vy := 0, posX := 5 / 2, posY := 0\<rparr>, exRedEdge]
        = [exBlue\<lparr>vx := 5 / 2, vy := 0, posX := 5 / 2, posY := 0\<rparr>, exRedEdge\<lparr>health := 98\<rparr>]"
    by (simp add: damagePassStandard_def damageAgentStandard_def isActiveBlue_def
        exBlue_def exRedEdge_def hypot_axis ENGAGEMENT_DISTANCE_def HIT_DAMAGE_def)
  show ?thesis
    by (simp add: updateStandardMode_def mv dm)
qed

lemma move_multi_gen:
  "moveAgentMulti rnd ''direct'' (exPolicy r) (exLogistics sr cr 100) [exBlue, exRedNear] exBlue k
     = (exBlue\<lparr>vx := 2.5 * aggressionModOf r, vy := 0,
               posX := clampGrid (2.5 * aggressionModOf r), posY := 0\<rparr>, k)"
  by (simp add: moveAgentMulti_def isLivingRed_def findNearest_single steer_direct
      exBlue_def exRedNear_def atan2_axis clampGrid_def GRID_SIZE_def
      exPolicy_def exLogistics_def Let_def)

lemma move_multi_edge:
  "moveAgentMulti rnd ''direct'' (exPolicy Standard) (exLogistics 100 100 100) [exBlue, exRedEdge] exBlue k
     = (exBlue\<lparr>vx := 2.5, vy := 0, posX := 2.5, posY := 0\<rparr>, k)"
  by (simp add: moveAgentMulti_def isLivingRed_def findNearest_single steer_direct
      exBlue_def exRedEdge_def atan2_axis clampGrid_def GRID_SIZE_def aggressionModOf_def
      exPolicy_def exLogistics_def)

lemma tick_multi_near_silent:
  "agents (fst (updateTheater (\<lambda>_. 0) ''direct'' (exPolicy Aggressive) (exLogistics 100 0 100)
          (exTheater [exBlue, exRedNear]) 0))
     = [exBlue\<lparr>vx := 3.75, vy := 0, posX := 3.75, posY := 0\<rparr>, exRedNear]"
proof -
  have mv: "movementPassMulti (\<lambda>_. 0) ''direct'' (exPolicy Aggressive) (exLogistics 100 0 100)
          [exBlue, exRedNear] 0
        = ([exBlue\<lparr>vx := 3.75, vy := 0, posX := 3.75, posY := 0\<rparr>, exRedNear], 0)"
    by (simp add: movementPassMulti_def move_multi_gen move_multi_red team_ex
        aggressionModOf_def clampGrid_def GRID_SIZE_def)
  have dm: "damagePassMulti (\<lambda>_. 0) (exPolicy Aggressive) (exLogistics 100 0 100)
          [exBlue\<lparr>vx := 15 / 4, vy := 0, posX := 15 / 4, posY := 0\<rparr>, exRedNear] 0
        = ([exBlue\<lparr>vx := 15 / 4, vy := 0, posX := 15 / 4, posY := 0\<rparr>, exRedNear], Suc 0)"
    by (simp add: damagePassMulti_def damageAgentMulti_def isActiveBlue_def Math_random_def
        exBlue_def exRedNear_def hypot_axis ENGAGEMENT_DISTANCE_def HIT_DAMAGE_def
        exPolicy_def exLogistics_def)
  show ?thesis
    by (simp add: updateTheater_def exTheater_def mv dm)
qed

lemma tick_multi_near_hit:
  "agents (fst (updateTheater (\<lambda>_. 0) ''direct'' (exPolicy Aggressive) (exLogistics 100 100 100)
          (exTheater [exBlue, exRedNear]) 0))
     = [exBlue\<lparr>vx := 3.75, vy := 0, posX := 3.75, posY := 0\<rparr>, exRedNear\<lparr>health := 97\<rparr>]"
proof -
  have mv: "movementPassMulti (\<lambda>_. 0) ''direct'' (exPolicy Aggressive) (exLogistics 100 100 100)
          [exBlue, exRedNear] 0
        = ([exBlue\<lparr>vx := 3.75, vy := 0, posX := 3.75, posY := 0\<rparr>, exRedNear], 0)"
    by (simp add: movementPassMulti_def move_multi_gen move_multi_red team_ex
        aggressionModOf_def clampGrid_def GRID_SIZE_def)
  have dm: "damagePassMulti (\<lambda>_. 0) (exPolicy Aggressive) (exLogistics 100 100 100)
          [exBlue\<lparr>vx := 15 / 4, vy := 0, posX := 15 / 4, posY := 0\<rparr>, exRedNear] 0
        = ([exBlue\<lparr>vx := 15 / 4, vy := 0, posX := 15 / 4, posY := 0\<rparr>,
            exRedNear\<lparr>health := 97\<rparr>], Suc 0)"
    by (simp add: damagePassMulti_def damageAgentMulti_def isActiveBlue_def Math_random_def
        exBlue_def exRedNear_def hypot_axis ENGAGEMENT_DISTANCE_def HIT_DAMAGE_def
        exPolicy_def exLogistics_def)
  show ?thesis
    by (simp add: updateTheater_def exTheater_def mv dm)
qed

lemma tick_multi_edge:
  "agents (fst (updateTheater (\<lambda>_. 0) ''direct'' (exPolicy Standard) (exLogistics 100 100 100)
          (exTheater [exBlue, exRedEdge]) 0))
     = [exBlue\<lparr>vx := 2.5, vy := 0, posX := 2.5, posY := 0\<rparr>, exRedEdge\<lparr>health := 98\<rparr>]"
proof -
  have mv: "movementPassMulti (\<lambda>_. 0) ''direct'' (exPolicy Standard) (exLogistics 100 100 100)
          [exBlue, exRedEdge] 0
        = ([exBlue\<lparr>vx := 2.5, vy := 0, posX := 2.5, posY := 0\<rparr>, exRedEdge], 0)"
    by (simp add: movementPassMulti_def move_multi_edge move_multi_red team_ex)
  have dm: "damagePassMulti (\<lambda>_. 0) (exPolicy Standard) (exLogistics 100 100 100)
          [exBlue\<lparr>vx := 5 / 2, vy := 0, posX := 5 / 2, posY := 0\<rparr>, exRedEdge] 0
        = ([exBlue\<lparr>vx := 5 / 2, vy := 0, posX := 5 / 2, posY := 0\<rparr>,
            exRedEdge\<lparr>health := 98\<rparr>], Suc 0)"
    by (simp add: damagePassMulti_def damageAgentMulti_def isActiveBlue_def Math_random_def
        exBlue_def exRedEdge_def hypot_axis ENGAGEMENT_DISTANCE_def HIT_DAMAGE_def
        exPolicy_def exLogistics_def)
  show ?thesis
    by (simp add: updateTheater_def exTheater_def mv dm)
qed

lemma engaging_edge: "engagingBlue [exBlue, exRedEdge] exRedEdge = 0"
  by (simp add: engagingBlue_def isActiveBlue_def exBlue_def exRedEdge_def hypot_axis
      ENGAGEMENT_DISTANCE_def)

text \<open>
  C2. The claim: a living red agent takes damage only from active blue agents within
  engagement distance whose roll against \<open>commsReliability / 100\<close> succeeds, each hit
  counting \<open>HIT_DAMAGE\<close> scaled by the rules of engagement, and the engine uses this one
  variant in every mode. At the input below (aggressive rules of engagement, comms
  reliability 0, one blue agent at the origin, one red agent at \<open>(10, 0)\<close> with health 100)
  no roll can succeed and the claim asks for health 100. The multi-theater update leaves
  the health at 100 and, with comms reliability 100, takes the scaled damage 3; the standard
  update makes no roll, applies no scaling and takes the flat damage 2.
\<close>

theorem standard_mode_damage_is_flat:
  "map health (fst (updateStandardMode (\<lambda>_. 0) ''direct'' (exPolicy Aggressive)
       (exLogistics 100 0 100) [exBlue, exRedNear] 0)) = [0, 98]
   \<and> map health (agents (fst (updateTheater (\<lambda>_. 0) ''direct'' (exPolicy Aggressive)
       (exLogistics 100 0 100) (exTheater [exBlue, exRedNear]) 0))) = [0, 100]
   \<and> map health (agents (fst (updateTheater (\<lambda>_. 0) ''direct'' (exPolicy Aggressive)
       (exLogistics 100 100 100) (exTheater [exBlue, exRedNear]) 0))) = [0, 97]"
  by (simp only: tick_std_near tick_multi_near_silent tick_multi_near_hit)
     (simp add: exBlue_def exRedNear_def)

section \<open>Which roster the passes read\<close>

lemma filter_all2:
  "list_all2 (\<lambda>a a'. (P a \<longrightarrow> a' = a) \<and> (\<not> P a \<longrightarrow> \<not> P a')) xs ys
     \<Longrightarrow> filter P ys = filter P xs"
  by (induction xs ys rule: list_all2_induct) auto

lemma move_std_red_rel:
  "(isLivingRed a \<longrightarrow> fst (moveAgentStandard rnd s prev a k) = a)
   \<and> (\<not> isLivingRed a \<longrightarrow> \<not> isLivingRed (fst (moveAgentStandard rnd s prev a k)))"
  using moveAgentStandard_keeps [of rnd s prev a k]
  by (auto simp: isLivingRed_def move_std_red)

lemma move_multi_red_rel:
  "(isLivingRed a \<longrightarrow> fst (moveAgentMulti rnd s pol lg prev a k) = a)
   \<and> (\<not> isLivingRed a \<longrightarrow> \<not> isLivingRed (fst (moveAgentMulti rnd s pol lg prev a k)))"
  using moveAgentMulti_keeps [of rnd s pol lg prev a k]
  by (auto simp: isLivingRed_def move_multi_red)

lemma movementPassStandard_rel:
  "list_all2 (\<lambda>a a'. (isLivingRed a \<longrightarrow> a' = a) \<and> (\<not> isLivingRed a \<longrightarrow> \<not> isLivingRed a'))
     prev (fst (movementPassStandard rnd s prev k))"
  unfolding movementPassStandard_def
  by (rule mapRand_all2) (rule move_std_red_rel)

lemma movementPassMulti_rel:
  "list_all2 (\<lambda>a a'. (isLivingRed a \<longrightarrow> a' = a) \<and> (\<not> isLivingRed a \<longrightarrow> \<not> isLivingRed a'))
     prev (fst (movementPassMulti rnd s pol lg prev k))"
  unfolding movementPassMulti_def
  by (rule mapRand_all2) (rule move_multi_red_rel)

lemma movementPassStandard_targets:
  "filter isLivingRed (fst (movementPassStandard rnd s prev k)) = filter isLivingRed prev"
  by (rule filter_all2) (rule movementPassStandard_rel)

lemma movementPassMulti_targets:
  "filter isLivingRed (fst (movementPassMulti rnd s pol lg prev k)) = filter isLivingRed prev"
  by (rule filter_all2) (rule movementPassMulti_rel)

lemma damageLoopStandard_count:
  "damageLoopStandard a bs acc =
     acc + HIT_DAMAGE * real (length (filter
       (\<lambda>b. hypot (posX b - posX a) (posY b - posY a) < ENGAGEMENT_DISTANCE) bs))"
  by (induction bs arbitrary: acc) (simp_all add: Let_def algebra_simps)

lemma engagingBlue_filter:
  "engagingBlue us a = length (filter
       (\<lambda>b. hypot (posX b - posX a) (posY b - posY a) < ENGAGEMENT_DISTANCE)
       (filter isActiveBlue us))"
  by (simp add: engagingBlue_def)

lemma damageAgentStandard_char:
  "damageAgentStandard us a =
     (if isLivingRed a \<and> 0 < engagingBlue us a
      then a\<lparr>health := max 0 (health a - HIT_DAMAGE * real (engagingBlue us a))\<rparr>
      else a)"
  by (simp add: damageAgentStandard_def Let_def damageLoopStandard_count engagingBlue_filter
      isLivingRed_def HIT_DAMAGE_def)

lemma damageLoopMulti_none:
  "\<forall>b \<in> set bs. \<not> hypot (posX b - posX a) (posY b - posY a) < ENGAGEMENT_DISTANCE
     \<Longrightarrow> damageLoopMulti rnd pol lg a bs acc k = (acc, k)"
  by (induction bs arbitrary: acc k) (simp_all add: Let_def)

lemma damageAgentMulti_none:
  assumes "engagingBlue us a = 0"
  shows "damageAgentMulti rnd pol lg us a k = (a, k)"
proof -
  have "filter (\<lambda>b. hypot (posX b - posX a) (posY b - posY a) < ENGAGEMENT_DISTANCE)
          (filter isActiveBlue us) = []"
    using assms by (simp add: engagingBlue_filter)
  then have "\<forall>b \<in> set (filter isActiveBlue us).
      \<not> hypot (posX b - posX a) (posY b - posY a) < ENGAGEMENT_DISTANCE"
    by (simp add: filter_empty_conv)
  then have "damageLoopMulti rnd pol lg a (filter isActiveBlue us) 0 k = (0, k)"
    by (rule damageLoopMulti_none)
  then show ?thesis
    by (simp add: damageAgentMulti_def Let_def)
qed

lemma mapRand_nth:
  "i < length xs \<Longrightarrow> \<exists>k'. fst (mapRand f xs k) ! i = fst (f (xs ! i) k')"
proof (induction xs arbitrary: k i)
  case Nil
  then show ?case by simp
next
  case (Cons a as)
  obtain b k' where fa: "f a k = (b, k')" by (cases "f a k")
  obtain bs k'' where rec: "mapRand f as k' = (bs, k'')" by (cases "mapRand f as k'")
  show ?case
  proof (cases i)
    case 0
    have "fst (mapRand f (a # as) k) ! 0 = fst (f a k)" using fa rec by simp
    then show ?thesis using 0 by auto
  next
    case (Suc j)
    then have "j < length as" using Cons.prems by simp
    then obtain kj where "fst (mapRand f as k') ! j = fst (f (as ! j) kj)"
      using Cons.IH [of j k'] by auto
    then have "fst (mapRand f (a # as) k) ! Suc j = fst (f ((a # as) ! Suc j) kj)"
      using fa rec by simp
    then show ?thesis using Suc by auto
  qed
qed

lemma standard_health_char:
  assumes "i < length prev"
  shows "health (fst (updateStandardMode rnd s pol lg prev k) ! i) =
     (let moved = fst (movementPassStandard rnd s prev k);
          n = engagingBlue moved (prev ! i)
      in if isLivingRed (prev ! i) \<and> 0 < n
         then max 0 (health (prev ! i) - HIT_DAMAGE * real n)
         else health (prev ! i))"
proof -
  obtain us k' where mv: "movementPassStandard rnd s prev k = (us, k')"
    by (cases "movementPassStandard rnd s prev k")
  have len: "length us = length prev"
    using mapRand_length [of "moveAgentStandard rnd s prev" prev k] mv
    by (simp add: movementPassStandard_def)
  have rel: "(isLivingRed (prev ! i) \<longrightarrow> us ! i = prev ! i)
       \<and> (\<not> isLivingRed (prev ! i) \<longrightarrow> \<not> isLivingRed (us ! i))"
    using list_all2_nthD [OF movementPassStandard_rel [of prev rnd s k] assms] mv by simp
  have keep: "health (us ! i) = health (prev ! i)"
  proof -
    have "list_all2 (\<lambda>a a'. health a' = health a) prev (fst (movementPassStandard rnd s prev k))"
      unfolding movementPassStandard_def
      by (rule mapRand_all2) (simp add: moveAgentStandard_keeps)
    then show ?thesis using list_all2_nthD [of _ prev _ i] assms mv by fastforce
  qed
  have res: "fst (updateStandardMode rnd s pol lg prev k) ! i = damageAgentStandard us (us ! i)"
    using assms len by (simp add: updateStandardMode_def mv damagePassStandard_def)
  show ?thesis
  proof (cases "isLivingRed (prev ! i)")
    case True
    then have "us ! i = prev ! i" using rel by simp
    then show ?thesis
      using True by (simp add: res mv damageAgentStandard_char Let_def)
  next
    case False
    then have "\<not> isLivingRed (us ! i)" using rel by simp
    then show ?thesis
      using False keep by (simp add: res mv damageAgentStandard_char Let_def)
  qed
qed

lemma multi_health_unengaged:
  assumes "i < length (agents th)"
    and "engagingBlue (fst (movementPassMulti rnd s pol lg (agents th) k)) (agents th ! i) = 0"
  shows "health (agents (fst (updateTheater rnd s pol lg th k)) ! i) = health (agents th ! i)"
proof -
  obtain us k' where mv: "movementPassMulti rnd s pol lg (agents th) k = (us, k')"
    by (cases "movementPassMulti rnd s pol lg (agents th) k")
  obtain fs k'' where dm: "damagePassMulti rnd pol lg us k' = (fs, k'')"
    by (cases "damagePassMulti rnd pol lg us k'")
  have len: "length us = length (agents th)"
    using mapRand_length [of "moveAgentMulti rnd s pol lg (agents th)" "agents th" k] mv
    by (simp add: movementPassMulti_def)
  have rel: "(isLivingRed (agents th ! i) \<longrightarrow> us ! i = agents th ! i)
       \<and> (\<not> isLivingRed (agents th ! i) \<longrightarrow> \<not> isLivingRed (us ! i))"
    using list_all2_nthD [OF movementPassMulti_rel [of "agents th" rnd s pol lg k] assms(1)] mv
    by simp
  have keep: "health (us ! i) = health (agents th ! i)"
  proof -
    have "list_all2 (\<lambda>a a'. health a' = health a) (agents th)
            (fst (movementPassMulti rnd s pol lg (agents th) k))"
      unfolding movementPassMulti_def
      by (rule mapRand_all2) (simp add: moveAgentMulti_keeps)
    then show ?thesis using list_all2_nthD [of _ "agents th" _ i] assms(1) mv by fastforce
  qed
  obtain kj where res: "fs ! i = fst (damageAgentMulti rnd pol lg us (us ! i) kj)"
    using mapRand_nth [of i us "damageAgentMulti rnd pol lg us" k'] assms(1) len dm
    by (auto simp: damagePassMulti_def)
  have fin: "agents (fst (updateTheater rnd s pol lg th k)) = fs"
    by (simp add: updateTheater_def mv dm)
  show ?thesis
  proof (cases "isLivingRed (agents th ! i)")
    case True
    then have "us ! i = agents th ! i" using rel by simp
    then show ?thesis
      using assms(2) mv by (simp add: fin res damageAgentMulti_none)
  next
    case False
    then have "\<not> isLivingRed (us ! i)" using rel by simp
    then have "damageAgentMulti rnd pol lg us (us ! i) kj = (us ! i, kj)"
      by (auto simp: damageAgentMulti_def isLivingRed_def)
    then show ?thesis
      using keep by (simp add: fin res)
  qed
qed

lemma strategyAngleSpeed_no_draw:
  "s \<noteq> ''dispersed'' \<Longrightarrow> snd (strategyAngleSpeed rnd a t s timeElapsed k) = k"
  by (simp add: strategyAngleSpeed_def Let_def)

lemma getStrategyBehavior_no_draw:
  assumes "s \<noteq> ''dispersed''"
  shows "snd (getStrategyBehavior rnd a n s timeArg k) = k"
proof (cases n)
  case None
  then show ?thesis by (simp add: getStrategyBehavior_def)
next
  case (Some t)
  obtain ang sp k' where
    e: "strategyAngleSpeed rnd a t s (case timeArg of None \<Rightarrow> 0 | Some u \<Rightarrow> u) k
          = ((ang, sp), k')"
    by (metis prod.exhaust)
  have "k' = k"
    using strategyAngleSpeed_no_draw
      [OF assms, of rnd a t "case timeArg of None \<Rightarrow> 0 | Some u \<Rightarrow> u" k] e
    by simp
  then show ?thesis
    using Some e by (simp add: getStrategyBehavior_def Let_def)
qed

lemma moveAgentStandard_no_draw:
  assumes "s \<noteq> ''dispersed''"
  shows "snd (moveAgentStandard rnd s prev a k) = k"
proof (cases "findNearest a (filter isLivingRed prev)")
  case None
  then show ?thesis by (simp add: moveAgentStandard_def)
next
  case (Some t)
  obtain bvx bvy k' where e: "getStrategyBehavior rnd a (Some t) s None k = ((bvx, bvy), k')"
    by (metis prod.exhaust)
  have "k' = k"
    using getStrategyBehavior_no_draw [OF assms, of rnd a "Some t" None k] e by simp
  then show ?thesis
    using Some e by (simp add: moveAgentStandard_def Let_def)
qed

lemma moveAgentMulti_no_draw:
  assumes "s \<noteq> ''dispersed''"
  shows "snd (moveAgentMulti rnd s pol lg prev a k) = k"
proof (cases "findNearest a (filter isLivingRed prev)")
  case None
  then show ?thesis by (simp add: moveAgentMulti_def)
next
  case (Some t)
  obtain bvx bvy k' where e: "getStrategyBehavior rnd a (Some t) s None k = ((bvx, bvy), k')"
    by (metis prod.exhaust)
  have "k' = k"
    using getStrategyBehavior_no_draw [OF assms, of rnd a "Some t" None k] e by simp
  then show ?thesis
    using Some e by (simp add: moveAgentMulti_def Let_def)
qed

lemma mapRand_pure:
  "(\<And>a. a \<in> set xs \<Longrightarrow> snd (f a k) = k) \<Longrightarrow> mapRand f xs k = (map (\<lambda>a. fst (f a k)) xs, k)"
proof (induction xs)
  case Nil
  then show ?case by simp
next
  case (Cons a as)
  have "snd (f a k) = k" using Cons.prems by simp
  then obtain b where fa: "f a k = (b, k)" by (metis prod.collapse)
  have "mapRand f as k = (map (\<lambda>a. fst (f a k)) as, k)"
    using Cons.IH Cons.prems by simp
  then show ?case using fa by simp
qed

lemma movement_is_plain_map:
  assumes "s \<noteq> ''dispersed''"
  shows "movementPassStandard rnd s prev k
           = (map (\<lambda>a. fst (moveAgentStandard rnd s prev a k)) prev, k)
       \<and> movementPassMulti rnd s pol lg prev k
           = (map (\<lambda>a. fst (moveAgentMulti rnd s pol lg prev a k)) prev, k)"
  unfolding movementPassStandard_def movementPassMulti_def
  using assms by (simp add: mapRand_pure moveAgentStandard_no_draw moveAgentMulti_no_draw)

lemma pass_std_edge:
  "movementPassStandard rnd ''direct'' [exBlue, exRedEdge] k
     = ([exBlue\<lparr>vx := 2.5, vy := 0, posX := 2.5, posY := 0\<rparr>, exRedEdge], k)"
  by (simp add: movementPassStandard_def move_std_edge move_std_red team_ex)

lemma pass_multi_far:
  "movementPassMulti rnd ''direct'' (exPolicy Defensive) (exLogistics 100 100 50)
       [exBlue, exRed] k
     = ([exBlue\<lparr>vx := 1.25, vy := 0, posX := 0.625, posY := 0\<rparr>, exRed], k)"
  by (simp add: movementPassMulti_def move_multi_ex move_multi_ex_red)

lemma engaging_edge_moved:
  "engagingBlue [exBlue\<lparr>vx := 2.5, vy := 0, posX := 2.5, posY := 0\<rparr>, exRedEdge] exRedEdge = 1"
  by (simp add: engagingBlue_def isActiveBlue_def exBlue_def exRedEdge_def hypot_axis
      ENGAGEMENT_DISTANCE_def)

lemma engaging_far_moved:
  "engagingBlue [exBlue\<lparr>vx := 1.25, vy := 0, posX := 0.625, posY := 0\<rparr>, exRed] exRed = 0"
  by (simp add: engagingBlue_def isActiveBlue_def exBlue_def exRed_def hypot_axis
      ENGAGEMENT_DISTANCE_def)

text \<open>
  C4, the claim as stated fails: the damage pass does not check the engagement distance on
  the positions before the movement pass. A blue agent at the origin and a red agent at
  \<open>(36, 0)\<close> are 36 apart before the tick, outside the engagement distance of 35, and no
  blue agent of the roster before the tick engages the red one. The movement pass brings
  the blue agent to \<open>(2.5, 0)\<close>, the damage pass of the same tick finds it 33.5 away, and
  the red agent loses 2 of its health of 100, in both modes.
\<close>

theorem damage_pass_reads_moved_positions:
  "engagingBlue [exBlue, exRedEdge] exRedEdge = 0
   \<and> health exRedEdge = 100
   \<and> health (fst (updateStandardMode (\<lambda>_. 0) ''direct'' (exPolicy Standard)
        (exLogistics 100 100 100) [exBlue, exRedEdge] 0) ! 1) = 98
   \<and> health (agents (fst (updateTheater (\<lambda>_. 0) ''direct'' (exPolicy Standard)
        (exLogistics 100 100 100) (exTheater [exBlue, exRedEdge]) 0)) ! 1) = 98"
  by (simp only: engaging_edge tick_std_edge tick_multi_edge)
     (simp add: exRedEdge_def)

text \<open>
  C4, amended. Within a tick the movement pass reads the roster as it was before the pass:
  it changes no living red agent, so the targets of every nearest-target computation are
  those of the roster before the tick whichever blue agents have moved already, and under
  every strategy but \<open>dispersed\<close> (which draws random numbers in iteration order) the pass
  is a plain map of a function of the agent and that roster. The damage pass reads the
  roster written by the movement pass, with the blue agents at their new positions: in
  standard mode a living red agent loses \<open>HIT_DAMAGE\<close> for every active blue agent that is
  within engagement distance after the movement, floored at 0, and every other health is
  unchanged; in multi-theater mode an agent that no active blue agent engages after the
  movement keeps its health.
\<close>

theorem passes_read_fixed_rosters:
  "filter isLivingRed (fst (movementPassStandard rnd s prev k)) = filter isLivingRed prev
   \<and> filter isLivingRed (fst (movementPassMulti rnd s pol lg (agents th) k))
       = filter isLivingRed (agents th)
   \<and> (s \<noteq> ''dispersed'' \<longrightarrow>
        movementPassStandard rnd s prev k
          = (map (\<lambda>a. fst (moveAgentStandard rnd s prev a k)) prev, k)
        \<and> movementPassMulti rnd s pol lg (agents th) k
          = (map (\<lambda>a. fst (moveAgentMulti rnd s pol lg (agents th) a k)) (agents th), k))
   \<and> (i < length prev \<longrightarrow>
        health (fst (updateStandardMode rnd s pol lg prev k) ! i) =
          (let moved = fst (movementPassStandard rnd s prev k);
               n = engagingBlue moved (prev ! i)
           in if isLivingRed (prev ! i) \<and> 0 < n
              then max 0 (health (prev ! i) - HIT_DAMAGE * real n)
              else health (prev ! i)))
   \<and> (j < length (agents th)
        \<and> engagingBlue (fst (movementPassMulti rnd s pol lg (agents th) k)) (agents th ! j) = 0
        \<longrightarrow> health (agents (fst (updateTheater rnd s pol lg th k)) ! j) = health (agents th ! j))"
  using movementPassStandard_targets [of rnd s prev k]
    movementPassMulti_targets [of rnd s pol lg "agents th" k]
    movement_is_plain_map [of s rnd prev k pol lg]
    movement_is_plain_map [of s rnd "agents th" k pol lg]
    standard_health_char [of i prev rnd s pol lg k]
    multi_health_unengaged [of j th rnd s pol lg k]
  by blast

theorem passes_read_fixed_rosters_witness:
  "''direct'' \<noteq> ''dispersed''
   \<and> movementPassStandard (\<lambda>_. 0) ''direct'' [exBlue, exRedEdge] 0
       = (map (\<lambda>a. fst (moveAgentStandard (\<lambda>_. 0) ''direct'' [exBlue, exRedEdge] a 0))
            [exBlue, exRedEdge], 0)
   \<and> (1::nat) < length [exBlue, exRedEdge]
   \<and> health (fst (updateStandardMode (\<lambda>_. 0) ''direct'' (exPolicy Defensive)
        (exLogistics 100 100 50) [exBlue, exRedEdge] 0) ! 1) = 98
   \<and> (1::nat) < length (agents (exTheater [exBlue, exRed]))
   \<and> engagingBlue (fst (movementPassMulti (\<lambda>_. 0) ''direct'' (exPolicy Defensive)
        (exLogistics 100 100 50) (agents (exTheater [exBlue, exRed])) 0))
        (agents (exTheater [exBlue, exRed]) ! 1) = 0
   \<and> health (agents (fst (updateTheater (\<lambda>_. 0) ''direct'' (exPolicy Defensive)
        (exLogistics 100 100 50) (exTheater [exBlue, exRed]) 0)) ! 1) = 100"
proof -
  note T = passes_read_fixed_rosters [where rnd = "\<lambda>_. 0" and s = "''direct''"
      and prev = "[exBlue, exRedEdge]" and k = 0 and pol = "exPolicy Defensive"
      and lg = "exLogistics 100 100 50" and th = "exTheater [exBlue, exRed]"
      and i = 1 and j = 1]
  have h1: "''direct'' \<noteq> ''dispersed''" by simp
  have n1: "[exBlue, exRedEdge] ! 1 = exRedEdge" and n2: "[exBlue, exRed] ! 1 = exRed"
    by simp_all
  have lr: "isLivingRed exRedEdge" "health exRedEdge = 100"
    by (simp_all add: isLivingRed_def exRedEdge_def)
  have h2: "(1::nat) < length [exBlue, exRedEdge]" by simp
  have h3: "(1::nat) < length (agents (exTheater [exBlue, exRed]))"
    by (simp add: exTheater_def)
  have ag: "agents (exTheater [exBlue, exRed]) = [exBlue, exRed]"
    by (simp add: exTheater_def)
  have h4: "engagingBlue (fst (movementPassMulti (\<lambda>_. 0) ''direct'' (exPolicy Defensive)
        (exLogistics 100 100 50) (agents (exTheater [exBlue, exRed])) 0))
        (agents (exTheater [exBlue, exRed]) ! 1) = 0"
    by (simp only: ag pass_multi_far fst_conv n2 engaging_far_moved)
  have c: "movementPassStandard (\<lambda>_. 0) ''direct'' [exBlue, exRedEdge] 0
       = (map (\<lambda>a. fst (moveAgentStandard (\<lambda>_. 0) ''direct'' [exBlue, exRedEdge] a 0))
            [exBlue, exRedEdge], 0)"
    using T h1 by blast
  have d: "health (fst (updateStandardMode (\<lambda>_. 0) ''direct'' (exPolicy Defensive)
        (exLogistics 100 100 50) [exBlue, exRedEdge] 0) ! 1) =
          (let moved = fst (movementPassStandard (\<lambda>_. 0) ''direct'' [exBlue, exRedEdge] 0);
               n = engagingBlue moved ([exBlue, exRedEdge] ! 1)
           in if isLivingRed ([exBlue, exRedEdge] ! 1) \<and> 0 < n
              then max 0 (health ([exBlue, exRedEdge] ! 1) - HIT_DAMAGE * real n)
              else health ([exBlue, exRedEdge] ! 1))"
    using T h2 by blast
  have d': "health (fst (updateStandardMode (\<lambda>_. 0) ''direct'' (exPolicy Defensive)
        (exLogistics 100 100 50) [exBlue, exRedEdge] 0) ! 1) = 98"
    by (simp only: d pass_std_edge fst_conv Let_def n1 engaging_edge_moved)
       (simp add: lr HIT_DAMAGE_def)
  have e: "health (agents (fst (updateTheater (\<lambda>_. 0) ''direct'' (exPolicy Defensive)
        (exLogistics 100 100 50) (exTheater [exBlue, exRed]) 0)) ! 1)
      = health (agents (exTheater [exBlue, exRed]) ! 1)"
    using T h3 h4 by blast
  have e': "health (agents (fst (updateTheater (\<lambda>_. 0) ''direct'' (exPolicy Defensive)
        (exLogistics 100 100 50) (exTheater [exBlue, exRed]) 0)) ! 1) = 100"
    by (simp only: e ag n2) (simp add: exRed_def)
  show ?thesis
    using h1 c h2 d' h3 h4 e' by blast
qed


end
